theory Spec2Isabelle
  imports Main "HOL-Library.AList" "HOL-Library.Sublist" "HOL-Library.Word"
begin

section \<open>Python values, exceptions and dictionaries\<close>

text \<open>
  Every \<^verbatim>\<open>raise\<close> of the two modules, and every exception the interpreter raises on
  their behalf, is a value of \<open>error\<close>; a function that can raise returns
  \<open>error + 'a\<close> with \<open>Inl\<close> carrying the exception.  \<open>OtherError\<close> stands for an
  exception of a library (the tensor runtime, the YAML reader) that the modules
  do not name.
\<close>

datatype error =
    ValueError | FileNotFoundError | RuntimeError | AttributeError | TypeError
  | KeyError | IndexError | RecursionError | UnboundLocalError | AssertionError | SyntaxError
  | OtherError

definition ebind :: "error + 'a \<Rightarrow> ('a \<Rightarrow> error + 'b) \<Rightarrow> error + 'b" where
  "ebind m f = (case m of Inl e \<Rightarrow> Inl e | Inr x \<Rightarrow> f x)"

text \<open>\<^verbatim>\<open>d[k]\<close> on a dict with string keys, kept as an association list in insertion order.\<close>

definition getitem :: "(string \<times> 'a) list \<Rightarrow> string \<Rightarrow> error + 'a" where
  "getitem d k = (case map_of d k of None \<Rightarrow> Inl KeyError | Some v \<Rightarrow> Inr v)"

text \<open>Running a fallible function over a list, left to right, stopping at the first exception.\<close>

fun emap :: "('a \<Rightarrow> error + 'b) \<Rightarrow> 'a list \<Rightarrow> error + 'b list" where
  "emap f [] = Inr []"
| "emap f (x # xs) =
     (case f x of Inl e \<Rightarrow> Inl e
      | Inr y \<Rightarrow> (case emap f xs of Inl e \<Rightarrow> Inl e | Inr ys \<Rightarrow> Inr (y # ys)))"

section \<open>The CenterNet head (centernet_head.py)\<close>

subsection \<open>The tensor runtime\<close>

text \<open>
  The head is written against the Paddle tensor runtime and the loss classes
  \<^verbatim>\<open>CTFocalLoss\<close> and \<^verbatim>\<open>GIoULoss\<close>, none of which is part of the two modules.  They
  are taken as a parameter: a record of the operations the head calls, over a type
  \<open>'t\<close> of tensors and a type \<open>'s\<close> of Python numbers.  Every operation may raise.
  \<open>slice_last t a b\<close> is \<^verbatim>\<open>t[:, :, a:b]\<close> (\<open>None\<close> for an open end), \<open>scale w t\<close>
  is the product \<^verbatim>\<open>w * t\<close> of a Python number and a tensor, \<open>lit_1e_4\<close>,
  \<open>lit_1_minus_1e_4\<close> and \<open>lit_2\<close> are the float literals \<^verbatim>\<open>1e-4\<close>, \<^verbatim>\<open>1 - 1e-4\<close> and
  \<^verbatim>\<open>2.0\<close>.  \<open>sequential_head cin planes cout\<close> is the sub-network
  \<^verbatim>\<open>nn.Sequential(ConvLayer(cin, planes, 3), nn.ReLU(), ConvLayer(planes, cout, 1))\<close>.
\<close>

record ('t, 's) paddle =
  sigmoid :: "'t \<Rightarrow> error + 't"
  clip :: "'t \<Rightarrow> 's \<Rightarrow> 's \<Rightarrow> error + 't"
  ctfocal_loss :: "'t \<Rightarrow> 't \<Rightarrow> error + 't"
  transpose_t :: "'t \<Rightarrow> nat list \<Rightarrow> error + 't"
  shape :: "'t \<Rightarrow> nat list"
  dtype :: "'t \<Rightarrow> string"
  reshape :: "'t \<Rightarrow> int list \<Rightarrow> error + 't"
  unsqueeze :: "'t \<Rightarrow> nat \<Rightarrow> error + 't"
  full :: "nat list \<Rightarrow> nat \<Rightarrow> string \<Rightarrow> error + 't"
  concat_t :: "'t list \<Rightarrow> int \<Rightarrow> error + 't"
  gather_nd :: "'t \<Rightarrow> 't \<Rightarrow> error + 't"
  expand_as :: "'t \<Rightarrow> 't \<Rightarrow> error + 't"
  cast :: "'t \<Rightarrow> string \<Rightarrow> error + 't"
  tsum :: "'t \<Rightarrow> error + 't"
  l1_loss_sum :: "'t \<Rightarrow> 't \<Rightarrow> error + 't"
  giou_loss_sum :: "'t \<Rightarrow> 't \<Rightarrow> 't \<Rightarrow> error + 't"
  tmul :: "'t \<Rightarrow> 't \<Rightarrow> error + 't"
  tadd :: "'t \<Rightarrow> 't \<Rightarrow> error + 't"
  tsub :: "'t \<Rightarrow> 't \<Rightarrow> error + 't"
  tdiv :: "'t \<Rightarrow> 't \<Rightarrow> error + 't"
  add_scalar :: "'t \<Rightarrow> 's \<Rightarrow> error + 't"
  div_scalar :: "'t \<Rightarrow> 's \<Rightarrow> error + 't"
  scale :: "'s \<Rightarrow> 't \<Rightarrow> error + 't"
  slice_last :: "'t \<Rightarrow> nat \<Rightarrow> nat option \<Rightarrow> error + 't"
  lit_1e_4 :: "'s"
  lit_1_minus_1e_4 :: "'s"
  lit_2 :: "'s"
  sequential_head :: "nat \<Rightarrow> nat \<Rightarrow> nat \<Rightarrow> 't \<Rightarrow> error + 't"

subsection \<open>The head object\<close>

text \<open>
  The attributes \<^verbatim>\<open>__init__\<close> assigns.  \<open>iou_branch\<close> is \<open>None\<close> when the attribute
  \<^verbatim>\<open>self.iou\<close> was never assigned.  \<open>training\<close> is the mode flag of \<^verbatim>\<open>nn.Layer\<close>.
\<close>

record ('t, 's) CenterNetHead =
  regress_ltrb :: bool
  weights :: "(string \<times> 's) list"
  heatmap_branch :: "'t \<Rightarrow> error + 't"
  size_branch :: "'t \<Rightarrow> error + 't"
  size_loss :: string
  offset_branch :: "'t \<Rightarrow> error + 't"
  iou_branch :: "('t \<Rightarrow> error + 't) option"
  training :: bool

text \<open>
  \<^verbatim>\<open>CenterNetHead.__init__\<close>.  The defaults of the source are \<open>num_classes = 80\<close>,
  \<open>head_planes = 256\<close>, \<open>heatmap_weight = 1\<close>, \<open>regress_ltrb = True\<close>,
  \<open>size_weight = 0.1\<close>, \<open>size_loss = 'L1'\<close>, \<open>offset_weight = 1\<close>, \<open>iou_weight = 0\<close>;
  a new \<^verbatim>\<open>nn.Layer\<close> is in training mode.
\<close>

definition CenterNetHead_init ::
  "('t, 's::{zero,ord}) paddle \<Rightarrow> nat \<Rightarrow> nat \<Rightarrow> nat \<Rightarrow> 's \<Rightarrow> bool \<Rightarrow> 's \<Rightarrow> string \<Rightarrow> 's \<Rightarrow> 's
     \<Rightarrow> ('t, 's) CenterNetHead" where
  "CenterNetHead_init rt in_channels num_classes head_planes heatmap_weight regress_ltrb_arg
      size_weight size_loss_arg offset_weight iou_weight =
     \<lparr> regress_ltrb = regress_ltrb_arg,
       weights = [(''heatmap'', heatmap_weight), (''size'', size_weight),
                  (''offset'', offset_weight), (''iou'', iou_weight)],
       heatmap_branch = sequential_head rt in_channels head_planes num_classes,
       size_branch = sequential_head rt in_channels head_planes (if regress_ltrb_arg then 4 else 2),
       size_loss = size_loss_arg,
       offset_branch = sequential_head rt in_channels head_planes 2,
       iou_branch =
         (if iou_weight > 0
          then Some (sequential_head rt in_channels head_planes (if regress_ltrb_arg then 4 else 2))
          else None),
       training = True \<rparr>"

text \<open>
  \<^verbatim>\<open>hasattr(self, name)\<close>: the attributes assigned by \<^verbatim>\<open>__init__\<close> and the names the
  class defines.  (\<^verbatim>\<open>nn.Layer\<close> contributes further inherited names; none of them is
  \<^verbatim>\<open>iou_weight\<close>, the only name the head asks for.)
\<close>

definition hasattr :: "('t, 's) CenterNetHead \<Rightarrow> string \<Rightarrow> bool" where
  "hasattr self name =
     (name \<in> set ([''regress_ltrb'', ''weights'', ''heatmap'', ''size'', ''size_loss'',
                    ''offset'', ''training'', ''__shared__'', ''from_config'', ''forward'',
                    ''get_loss'']
                   @ (case iou_branch self of None \<Rightarrow> [] | Some _ \<Rightarrow> [''iou''])))"

subsection \<open>get_loss\<close>

text \<open>\<^verbatim>\<open>a, b, c, d = t.shape\<close>, \<^verbatim>\<open>t.shape[i]\<close> and \<^verbatim>\<open>t.shape[-1]\<close>.\<close>

definition unpack4 :: "nat list \<Rightarrow> error + (nat \<times> nat \<times> nat \<times> nat)" where
  "unpack4 xs = (case xs of [a, b, c, d] \<Rightarrow> Inr (a, b, c, d) | _ \<Rightarrow> Inl ValueError)"

definition shape_at :: "nat list \<Rightarrow> nat \<Rightarrow> error + nat" where
  "shape_at xs i = (if i < length xs then Inr (xs ! i) else Inl IndexError)"

definition shape_last :: "nat list \<Rightarrow> error + nat" where
  "shape_last xs = (if xs = [] then Inl IndexError else Inr (last xs))"

text \<open>
  Lines 174 to 177: the heatmap loss.  (Assignments to \<^verbatim>\<open>stop_gradient\<close> here and
  below only mark a tensor for the autodiff engine and are left out.)
\<close>

definition heatmap_head_loss ::
  "('t, 's) paddle \<Rightarrow> (string \<times> 't) list \<Rightarrow> 't \<Rightarrow> error + 't" where
  "heatmap_head_loss rt inputs heatmap =
     ebind (getitem inputs ''heatmap'') (\<lambda>heatmap_target.
     ebind (sigmoid rt heatmap) (\<lambda>sg.
     ebind (clip rt sg (lit_1e_4 rt) (lit_1_minus_1e_4 rt)) (\<lambda>heatmap1.
     ctfocal_loss rt heatmap1 heatmap_target)))"

text \<open>
  Lines 180 to 198: the predictions at the ground-truth positions.  The result is
  the tuple of the variables later lines read: \<open>index\<close> (with the batch indices),
  \<open>mask\<close> (unsqueezed), \<open>pos_size\<close>, \<open>size_mask\<close> and \<open>pos_num\<close>.
\<close>

definition gather_positions ::
  "('t, 's) paddle \<Rightarrow> (string \<times> 't) list \<Rightarrow> 't \<Rightarrow> error + ('t \<times> 't \<times> 't \<times> 't \<times> 't)" where
  "gather_positions rt inputs size_pred =
     ebind (getitem inputs ''index'') (\<lambda>index.
     ebind (getitem inputs ''index_mask'') (\<lambda>mask.
     ebind (transpose_t rt size_pred [0, 2, 3, 1]) (\<lambda>size1.
     ebind (unpack4 (shape rt size1)) (\<lambda>(size_n, size_h, size_w, size_c).
     ebind (reshape rt size1 [int size_n, - 1, int size_c]) (\<lambda>size2.
     ebind (unsqueeze rt index 2) (\<lambda>index1.
     ebind (emap (\<lambda>i. ebind (shape_at (shape rt index1) 1)
                          (\<lambda>m. full rt [1, m, 1] i ''int64'')) [0..<size_n]) (\<lambda>batch_inds.
     ebind (concat_t rt batch_inds 0) (\<lambda>batch_inds1.
     ebind (concat_t rt [batch_inds1, index1] 2) (\<lambda>index2.
     ebind (gather_nd rt size2 index2) (\<lambda>pos_size.
     ebind (unsqueeze rt mask 2) (\<lambda>mask1.
     ebind (expand_as rt mask1 pos_size) (\<lambda>size_mask.
     ebind (cast rt size_mask (dtype rt pos_size)) (\<lambda>size_mask1.
     ebind (tsum rt size_mask1) (\<lambda>pos_num.
     Inr (index2, mask1, pos_size, size_mask1, pos_num)))))))))))))))"

text \<open>
  Lines 220 to 226, repeated as lines 264 to 270: the boxes predicted around the
  centres of the ground-truth boxes.
\<close>

definition pred_boxes_around ::
  "('t, 's) paddle \<Rightarrow> 't \<Rightarrow> 't \<Rightarrow> error + 't" where
  "pred_boxes_around rt target pos_size =
     ebind (slice_last rt target 0 (Some 1)) (\<lambda>t0.
     ebind (slice_last rt target 2 (Some 3)) (\<lambda>t2.
     ebind (tadd rt t0 t2) (\<lambda>sx.
     ebind (div_scalar rt sx (lit_2 rt)) (\<lambda>centers_x.
     ebind (slice_last rt target 1 (Some 2)) (\<lambda>t1.
     ebind (slice_last rt target 3 (Some 4)) (\<lambda>t3.
     ebind (tadd rt t1 t3) (\<lambda>sy.
     ebind (div_scalar rt sy (lit_2 rt)) (\<lambda>centers_y.
     ebind (slice_last rt pos_size 0 (Some 1)) (\<lambda>p0.
     ebind (tsub rt centers_x p0) (\<lambda>x1.
     ebind (slice_last rt pos_size 1 (Some 2)) (\<lambda>p1.
     ebind (tsub rt centers_y p1) (\<lambda>y1.
     ebind (slice_last rt pos_size 2 (Some 3)) (\<lambda>p2.
     ebind (tadd rt centers_x p2) (\<lambda>x2.
     ebind (slice_last rt pos_size 3 (Some 4)) (\<lambda>p3.
     ebind (tadd rt centers_y p3) (\<lambda>y2.
     concat_t rt [x1, y1, x2, y2] (- 1)))))))))))))))))"

text \<open>Lines 201 to 211: the target of the L1 size loss.\<close>

definition l1_size_target ::
  "('t, 's) paddle \<Rightarrow> bool \<Rightarrow> (string \<times> 't) list \<Rightarrow> error + 't" where
  "l1_size_target rt ltrb inputs =
     (if ltrb then getitem inputs ''size''
      else
        ebind (getitem inputs ''size'') (\<lambda>sz.
        ebind (shape_last (shape rt sz)) (\<lambda>c.
        if c = 2 then getitem inputs ''size''
        else
          ebind (slice_last rt sz 0 (Some 2)) (\<lambda>a.
          ebind (getitem inputs ''size'') (\<lambda>sz1.
          ebind (slice_last rt sz1 2 None) (\<lambda>b.
          tadd rt a b))))))"

text \<open>
  Lines 199 to 233: the size loss.  The local variable \<^verbatim>\<open>size_loss\<close> is assigned in
  the branch for \<^verbatim>\<open>'L1'\<close> and in the branch for \<^verbatim>\<open>'giou'\<close>; there is no \<^verbatim>\<open>else\<close>.  The
  result is \<open>Some\<close> of its value, or \<open>None\<close> while the variable is unbound.
\<close>

definition size_head_loss ::
  "('t, 's) paddle \<Rightarrow> string \<Rightarrow> bool \<Rightarrow> (string \<times> 't) list \<Rightarrow> 't \<Rightarrow> 't \<Rightarrow> 't
     \<Rightarrow> error + 't option" where
  "size_head_loss rt size_loss_name ltrb inputs pos_size size_mask pos_num =
     (if size_loss_name = ''L1'' then
        ebind (l1_size_target rt ltrb inputs) (\<lambda>size_target.
        ebind (tmul rt pos_size size_mask) (\<lambda>p.
        ebind (tmul rt size_target size_mask) (\<lambda>q.
        ebind (l1_loss_sum rt p q) (\<lambda>l.
        ebind (add_scalar rt pos_num (lit_1e_4 rt)) (\<lambda>d.
        ebind (tdiv rt l d) (\<lambda>r. Inr (Some r)))))))
      else if size_loss_name = ''giou'' then
        ebind (getitem inputs ''bbox_xys'') (\<lambda>size_target.
        ebind (pred_boxes_around rt size_target pos_size) (\<lambda>pred_boxes.
        ebind (tmul rt pred_boxes size_mask) (\<lambda>p.
        ebind (tmul rt size_target size_mask) (\<lambda>q.
        ebind (giou_loss_sum rt p q size_mask) (\<lambda>l.
        ebind (add_scalar rt pos_num (lit_1e_4 rt)) (\<lambda>d.
        ebind (tdiv rt l d) (\<lambda>r. Inr (Some r))))))))
      else Inr None)"

text \<open>Lines 236 to 250: the offset loss.\<close>

definition offset_head_loss ::
  "('t, 's) paddle \<Rightarrow> (string \<times> 't) list \<Rightarrow> 't \<Rightarrow> 't \<Rightarrow> 't \<Rightarrow> error + 't" where
  "offset_head_loss rt inputs offset index mask1 =
     ebind (getitem inputs ''offset'') (\<lambda>offset_target.
     ebind (transpose_t rt offset [0, 2, 3, 1]) (\<lambda>offset1.
     ebind (unpack4 (shape rt offset1)) (\<lambda>(offset_n, offset_h, offset_w, offset_c).
     ebind (reshape rt offset1 [int offset_n, - 1, int offset_c]) (\<lambda>offset2.
     ebind (gather_nd rt offset2 index) (\<lambda>pos_offset.
     ebind (expand_as rt mask1 pos_offset) (\<lambda>offset_mask.
     ebind (cast rt offset_mask (dtype rt pos_offset)) (\<lambda>offset_mask1.
     ebind (tsum rt offset_mask1) (\<lambda>pos_num.
     ebind (tmul rt pos_offset offset_mask1) (\<lambda>p.
     ebind (tmul rt offset_target offset_mask1) (\<lambda>q.
     ebind (l1_loss_sum rt p q) (\<lambda>l.
     ebind (add_scalar rt pos_num (lit_1e_4 rt)) (\<lambda>d.
     tdiv rt l d))))))))))))"

text \<open>Lines 254 to 277: the IoU loss, run when \<^verbatim>\<open>iou is not None\<close>.\<close>

definition iou_head_loss ::
  "('t, 's) paddle \<Rightarrow> (string \<times> 't) list \<Rightarrow> 't \<Rightarrow> 't \<Rightarrow> 't \<Rightarrow> 't \<Rightarrow> error + 't" where
  "iou_head_loss rt inputs iou index mask1 pos_size =
     ebind (transpose_t rt iou [0, 2, 3, 1]) (\<lambda>iou1.
     ebind (unpack4 (shape rt iou1)) (\<lambda>(iou_n, iou_h, iou_w, iou_c).
     ebind (reshape rt iou1 [int iou_n, - 1, int iou_c]) (\<lambda>iou2.
     ebind (gather_nd rt iou2 index) (\<lambda>pos_iou.
     ebind (expand_as rt mask1 pos_iou) (\<lambda>iou_mask.
     ebind (cast rt iou_mask (dtype rt pos_iou)) (\<lambda>iou_mask1.
     ebind (tsum rt iou_mask1) (\<lambda>pos_num.
     ebind (getitem inputs ''bbox_xys'') (\<lambda>gt_bbox_xys.
     ebind (pred_boxes_around rt gt_bbox_xys pos_size) (\<lambda>pred_boxes.
     ebind (tmul rt pred_boxes iou_mask1) (\<lambda>p.
     ebind (tmul rt gt_bbox_xys iou_mask1) (\<lambda>q.
     ebind (giou_loss_sum rt p q iou_mask1) (\<lambda>l.
     ebind (add_scalar rt pos_num (lit_1e_4 rt)) (\<lambda>d.
     tdiv rt l d)))))))))))))"

text \<open>
  Lines 279 to 291: the dict of losses.  The dict display reads the local variable
  \<^verbatim>\<open>size_loss\<close>; reading it while it is unbound raises \<^verbatim>\<open>UnboundLocalError\<close>.
  \<open>iou_loss_var\<close> is the local variable \<^verbatim>\<open>iou_loss\<close>, bound exactly when
  \<^verbatim>\<open>iou is not None\<close>.
\<close>

definition assemble_losses ::
  "('t, 's) paddle \<Rightarrow> (string \<times> 's) list \<Rightarrow> 't \<Rightarrow> 't option \<Rightarrow> 't \<Rightarrow> 't option
     \<Rightarrow> error + (string \<times> 't) list" where
  "assemble_losses rt weights_arg heatmap_loss size_loss_var offset_loss iou_loss_var =
     ebind (case size_loss_var of None \<Rightarrow> Inl UnboundLocalError | Some v \<Rightarrow> Inr v) (\<lambda>size_loss_val.
     let losses = [(''heatmap_loss'', heatmap_loss), (''size_loss'', size_loss_val),
                   (''offset_loss'', offset_loss)] in
     ebind (getitem weights_arg ''heatmap'') (\<lambda>wh.
     ebind (scale rt wh heatmap_loss) (\<lambda>a.
     ebind (getitem weights_arg ''size'') (\<lambda>ws.
     ebind (scale rt ws size_loss_val) (\<lambda>b.
     ebind (tadd rt a b) (\<lambda>ab.
     ebind (getitem weights_arg ''offset'') (\<lambda>wo.
     ebind (scale rt wo offset_loss) (\<lambda>c.
     ebind (tadd rt ab c) (\<lambda>det_loss.
     (case iou_loss_var of
        None \<Rightarrow> Inr (AList.update ''det_loss'' det_loss losses)
      | Some iou_loss \<Rightarrow>
          let losses1 = AList.update ''iou_loss'' iou_loss losses in
          ebind (getitem weights_arg ''iou'') (\<lambda>wi.
          ebind (scale rt wi iou_loss) (\<lambda>d.
          ebind (tadd rt det_loss d) (\<lambda>det_loss1.
          Inr (AList.update ''det_loss'' det_loss1 losses1))))))))))))))"

text \<open>\<^verbatim>\<open>CenterNetHead.get_loss\<close>; the argument \<open>iou\<close> is \<open>None\<close> for Python's \<^verbatim>\<open>None\<close>.\<close>

definition get_loss ::
  "('t, 's) paddle \<Rightarrow> ('t, 's) CenterNetHead \<Rightarrow> (string \<times> 't) list \<Rightarrow> (string \<times> 's) list
     \<Rightarrow> 't \<Rightarrow> 't \<Rightarrow> 't \<Rightarrow> 't option \<Rightarrow> error + (string \<times> 't) list" where
  "get_loss rt self inputs weights_arg heatmap size_pred offset iou =
     ebind (heatmap_head_loss rt inputs heatmap) (\<lambda>heatmap_loss.
     ebind (gather_positions rt inputs size_pred) (\<lambda>(index, mask1, pos_size, size_mask, pos_num).
     ebind (size_head_loss rt (size_loss self) (regress_ltrb self) inputs pos_size size_mask pos_num)
       (\<lambda>size_loss_var.
     ebind (offset_head_loss rt inputs offset index mask1) (\<lambda>offset_loss.
     ebind (case iou of
              None \<Rightarrow> Inr None
            | Some iou_pred \<Rightarrow>
                ebind (iou_head_loss rt inputs iou_pred index mask1 pos_size) (\<lambda>l. Inr (Some l)))
       (\<lambda>iou_loss_var.
     assemble_losses rt weights_arg heatmap_loss size_loss_var offset_loss iou_loss_var)))))"

subsection \<open>forward\<close>

text \<open>
  \<^verbatim>\<open>CenterNetHead.forward\<close>.  \<^verbatim>\<open>self.iou(feat)\<close> reads the attribute \<^verbatim>\<open>iou\<close>, which
  raises \<^verbatim>\<open>AttributeError\<close> when it was never assigned.
\<close>

definition forward ::
  "('t, 's) paddle \<Rightarrow> ('t, 's) CenterNetHead \<Rightarrow> 't \<Rightarrow> (string \<times> 't) list
     \<Rightarrow> error + (string \<times> 't) list" where
  "forward rt self feat inputs =
     ebind (heatmap_branch self feat) (\<lambda>heatmap.
     ebind (size_branch self feat) (\<lambda>size_pred.
     ebind (offset_branch self feat) (\<lambda>offset.
     ebind (if hasattr self ''iou_weight''
            then (case iou_branch self of
                    None \<Rightarrow> Inl AttributeError
                  | Some net \<Rightarrow> ebind (net feat) (\<lambda>t. Inr (Some t)))
            else Inr None) (\<lambda>iou.
     if training self then
       get_loss rt self inputs (weights self) heatmap size_pred offset iou
     else
       ebind (sigmoid rt heatmap) (\<lambda>heatmap1.
       let head_outs = [(''heatmap'', heatmap1), (''size'', size_pred), (''offset'', offset)] in
       (case iou of
          None \<Rightarrow> Inr head_outs
        | Some iou_pred \<Rightarrow> Inr (AList.update ''iou'' iou_pred head_outs)))))))"

subsection \<open>A small runtime for evaluation\<close>

text \<open>
  To evaluate the head on concrete inputs, a runtime whose tensors are single
  integers: shape-changing operations are the identity, every tensor reports the
  shape \<open>[1, 1, 1, 1]\<close>, arithmetic is integer arithmetic, and a head with \<open>cout\<close>
  output channels adds \<open>cout\<close> to its input.
\<close>

definition toy_paddle :: "(int, int) paddle" where
  "toy_paddle =
     \<lparr> sigmoid = (\<lambda>t. Inr t),
       clip = (\<lambda>t lo hi. Inr (max lo (min hi t))),
       ctfocal_loss = (\<lambda>p t. Inr (abs (p - t))),
       transpose_t = (\<lambda>t perm. Inr t),
       shape = (\<lambda>t. [1, 1, 1, 1]),
       dtype = (\<lambda>t. ''int64''),
       reshape = (\<lambda>t shp. Inr t),
       unsqueeze = (\<lambda>t axis. Inr t),
       full = (\<lambda>shp v dt. Inr (int v)),
       concat_t = (\<lambda>ts axis. Inr (sum_list ts)),
       gather_nd = (\<lambda>t index. Inr t),
       expand_as = (\<lambda>t other. Inr t),
       cast = (\<lambda>t dt. Inr t),
       tsum = (\<lambda>t. Inr t),
       l1_loss_sum = (\<lambda>p q. Inr (abs (p - q))),
       giou_loss_sum = (\<lambda>p q w. Inr (abs (p - q) * w)),
       tmul = (\<lambda>a b. Inr (a * b)),
       tadd = (\<lambda>a b. Inr (a + b)),
       tsub = (\<lambda>a b. Inr (a - b)),
       tdiv = (\<lambda>a b. if b = 0 then Inl OtherError else Inr (a div b)),
       add_scalar = (\<lambda>t s. Inr (t + s)),
       div_scalar = (\<lambda>t s. if s = 0 then Inl OtherError else Inr (t div s)),
       scale = (\<lambda>s t. Inr (s * t)),
       slice_last = (\<lambda>t a b. Inr t),
       lit_1e_4 = 1,
       lit_1_minus_1e_4 = 100,
       lit_2 = 2,
       sequential_head = (\<lambda>cin planes cout t. Inr (t + int cout)) \<rparr>"

definition toy_inputs :: "(string \<times> int) list" where
  "toy_inputs = [(''heatmap'', 3), (''index'', 0), (''index_mask'', 1), (''size'', 7),
                 (''offset'', 2), (''bbox_xys'', 5)]"

section \<open>The configuration loader (config.py)\<close>

subsection \<open>YAML values and the dict operations of Python\<close>

text \<open>
  What \<^verbatim>\<open>yaml.load\<close> returns: \<^verbatim>\<open>None\<close>, booleans, integers, floats (a binary64, kept
  as its bit pattern), strings, lists and dicts with string keys.  A dict is the
  list of its items in insertion order; a Python dict has each key once.  A value
  is a tree: the documents covered are those in which every dict object occurs at
  one place, that is, documents without a YAML alias (\<^verbatim>\<open>*name\<close>) to a mapping.  In a
  document with such an alias two places hold one object and a write through one
  is read through the other, which a tree cannot say.  (A list of loss types made
  by replication holds one object several times; that case is modelled, in
  \<open>load_loss_types\<close>.)
\<close>

datatype yaml =
    YNone | YBool bool | YInt int | YFloat "64 word" | YStr string
  | YList "yaml list" | YDict "(string \<times> yaml) list"

text \<open>Truth value of a value (\<^verbatim>\<open>if v\<close>, \<^verbatim>\<open>not v\<close>); \<open>0x8000000000000000\<close> is \<open>-0.0\<close>.\<close>

fun truthy :: "yaml \<Rightarrow> bool" where
  "truthy YNone = False"
| "truthy (YBool b) = b"
| "truthy (YInt i) = (i \<noteq> 0)"
| "truthy (YFloat w) = (w \<noteq> 0 \<and> w \<noteq> 0x8000000000000000)"
| "truthy (YStr s) = (s \<noteq> [])"
| "truthy (YList l) = (l \<noteq> [])"
| "truthy (YDict d) = (d \<noteq> [])"

text \<open>\<^verbatim>\<open>v == False\<close>: \<^verbatim>\<open>False\<close> and the numbers equal to it, \<open>0\<close>, \<open>0.0\<close> and \<open>-0.0\<close>.\<close>

fun eq_False :: "yaml \<Rightarrow> bool" where
  "eq_False (YBool b) = (\<not> b)"
| "eq_False (YInt i) = (i = 0)"
| "eq_False (YFloat w) = (w = 0 \<or> w = 0x8000000000000000)"
| "eq_False v = False"

text \<open>
  The methods and operators the loader applies to loaded values, with the
  exception each raises on a value of another type: \<^verbatim>\<open>v.copy()\<close>,
  \<^verbatim>\<open>v.get(k, default)\<close>, \<^verbatim>\<open>k in v\<close>, \<^verbatim>\<open>v[k]\<close>, \<^verbatim>\<open>v[k] = x\<close>, \<^verbatim>\<open>v.pop(k)\<close>,
  \<^verbatim>\<open>v.setdefault(k, default)\<close>, \<^verbatim>\<open>len(v)\<close>, \<^verbatim>\<open>v * n\<close> and iteration, for a string key
  \<open>k\<close>.  Assignment and \<open>pop\<close> return the changed dict.
\<close>

definition keys :: "(string \<times> 'a) list \<Rightarrow> string set" where
  "keys d = set (map fst d)"

definition py_copy :: "yaml \<Rightarrow> error + yaml" where
  "py_copy v = (case v of YDict d \<Rightarrow> Inr (YDict d) | YList l \<Rightarrow> Inr (YList l)
                | _ \<Rightarrow> Inl AttributeError)"

definition py_get :: "yaml \<Rightarrow> string \<Rightarrow> yaml \<Rightarrow> error + yaml" where
  "py_get v k dflt =
     (case v of YDict d \<Rightarrow> Inr (case map_of d k of None \<Rightarrow> dflt | Some x \<Rightarrow> x)
      | _ \<Rightarrow> Inl AttributeError)"

definition py_contains :: "yaml \<Rightarrow> string \<Rightarrow> error + bool" where
  "py_contains v k =
     (case v of YDict d \<Rightarrow> Inr (k \<in> keys d)
      | YList l \<Rightarrow> Inr (YStr k \<in> set l)
      | YStr s \<Rightarrow> Inr (sublist k s)
      | _ \<Rightarrow> Inl TypeError)"

definition py_getitem :: "yaml \<Rightarrow> string \<Rightarrow> error + yaml" where
  "py_getitem v k =
     (case v of YDict d \<Rightarrow> (case map_of d k of None \<Rightarrow> Inl KeyError | Some x \<Rightarrow> Inr x)
      | _ \<Rightarrow> Inl TypeError)"

definition py_setitem :: "yaml \<Rightarrow> string \<Rightarrow> yaml \<Rightarrow> error + yaml" where
  "py_setitem v k x =
     (case v of YDict d \<Rightarrow> Inr (YDict (AList.update k x d)) | _ \<Rightarrow> Inl TypeError)"

definition py_pop :: "yaml \<Rightarrow> string \<Rightarrow> error + (yaml \<times> yaml)" where
  "py_pop v k =
     (case v of
        YDict d \<Rightarrow> (case map_of d k of None \<Rightarrow> Inl KeyError
                     | Some x \<Rightarrow> Inr (x, YDict (AList.delete k d)))
      | YList l \<Rightarrow> Inl TypeError
      | _ \<Rightarrow> Inl AttributeError)"

definition py_setdefault :: "yaml \<Rightarrow> string \<Rightarrow> yaml \<Rightarrow> error + yaml" where
  "py_setdefault v k dflt =
     (case v of YDict d \<Rightarrow> Inr (if k \<in> keys d then YDict d else YDict (d @ [(k, dflt)]))
      | _ \<Rightarrow> Inl AttributeError)"

definition py_len :: "yaml \<Rightarrow> error + nat" where
  "py_len v =
     (case v of YDict d \<Rightarrow> Inr (length d) | YList l \<Rightarrow> Inr (length l)
      | YStr s \<Rightarrow> Inr (length s) | _ \<Rightarrow> Inl TypeError)"

definition py_repeat :: "yaml \<Rightarrow> nat \<Rightarrow> error + yaml" where
  "py_repeat v n =
     (case v of YList l \<Rightarrow> Inr (YList (concat (replicate n l)))
      | YStr s \<Rightarrow> Inr (YStr (concat (replicate n s)))
      | _ \<Rightarrow> Inl TypeError)"

definition py_iter :: "yaml \<Rightarrow> error + yaml list" where
  "py_iter v =
     (case v of YList l \<Rightarrow> Inr l
      | YDict d \<Rightarrow> Inr (map (\<lambda>kv. YStr (fst kv)) d)
      | YStr s \<Rightarrow> Inr (map (\<lambda>c. YStr [c]) s)
      | _ \<Rightarrow> Inl TypeError)"

subsection \<open>The environment\<close>

text \<open>
  The file system and the library calls of the loader: \<^verbatim>\<open>os.path.exists\<close>, reading a
  file with \<^verbatim>\<open>codecs.open\<close> and \<^verbatim>\<open>yaml.load\<close> (the loaded value, or the exception of
  either), \<^verbatim>\<open>os.path.dirname\<close>, \<^verbatim>\<open>os.path.join\<close>, \<^verbatim>\<open>ast.literal_eval\<close>, and the depth
  of recursion the interpreter allows before it raises \<^verbatim>\<open>RecursionError\<close>.
\<close>

record os_env =
  path_exists :: "string \<Rightarrow> bool"
  yaml_load :: "string \<Rightarrow> error + yaml"
  dirname :: "string \<Rightarrow> string"
  path_join :: "string \<Rightarrow> string \<Rightarrow> string"
  literal_eval :: "string \<Rightarrow> error + yaml"
  recursion_limit :: nat

subsection \<open>Merging a config over its base\<close>

text \<open>
  \<^verbatim>\<open>Config._update_dic\<close>.  Both arguments are copied first, and \<^verbatim>\<open>copy\<close> and \<^verbatim>\<open>get\<close>
  raise \<^verbatim>\<open>AttributeError\<close> on a value without them, so a \<open>dic\<close> that is not a dict
  raises \<^verbatim>\<open>AttributeError\<close> whatever the base is.  \<open>update_items\<close> is the \<^verbatim>\<open>for\<close> loop
  over the items of \<open>dic\<close>, its second argument the copy of the base being updated.
\<close>

fun update_dic :: "yaml \<Rightarrow> yaml \<Rightarrow> error + yaml"
and update_items :: "(string \<times> yaml) list \<Rightarrow> yaml \<Rightarrow> error + yaml" where
  "update_dic (YDict d) base_dic =
     (case py_copy base_dic of
        Inl e \<Rightarrow> Inl e
      | Inr base_copy \<Rightarrow>
          if eq_False (case map_of d ''_inherited_'' of None \<Rightarrow> YBool True | Some x \<Rightarrow> x)
          then Inr (YDict (AList.delete ''_inherited_'' d))
          else update_items d base_copy)"
| "update_dic YNone base_dic = Inl AttributeError"
| "update_dic (YBool b) base_dic = Inl AttributeError"
| "update_dic (YInt i) base_dic = Inl AttributeError"
| "update_dic (YFloat w) base_dic = Inl AttributeError"
| "update_dic (YStr s) base_dic = Inl AttributeError"
| "update_dic (YList l) base_dic = Inl AttributeError"
| "update_items [] base_dic = Inr base_dic"
| "update_items ((key, val) # rest) base_dic =
     (case val of
        YDict sub \<Rightarrow>
          (case py_contains base_dic key of
             Inl e \<Rightarrow> Inl e
           | Inr True \<Rightarrow>
               (case py_getitem base_dic key of
                  Inl e \<Rightarrow> Inl e
                | Inr base_val \<Rightarrow>
                    (case update_dic val base_val of
                       Inl e \<Rightarrow> Inl e
                     | Inr merged \<Rightarrow>
                         (case py_setitem base_dic key merged of
                            Inl e \<Rightarrow> Inl e
                          | Inr base1 \<Rightarrow> update_items rest base1)))
           | Inr False \<Rightarrow>
               (case py_setitem base_dic key val of
                  Inl e \<Rightarrow> Inl e
                | Inr base1 \<Rightarrow> update_items rest base1))
      | _ \<Rightarrow>
          (case py_setitem base_dic key val of
             Inl e \<Rightarrow> Inl e
           | Inr base1 \<Rightarrow> update_items rest base1))"

subsection \<open>Parsing a file and its bases\<close>

text \<open>
  \<^verbatim>\<open>Config._parse_from_yaml\<close>.  The first argument is the depth of recursion left;
  the interpreter raises \<^verbatim>\<open>RecursionError\<close> when it is used up, which a cycle of
  \<^verbatim>\<open>_base_\<close> references does.  \<^verbatim>\<open>os.path.join\<close> raises \<^verbatim>\<open>TypeError\<close> on a base path
  that is not a string.
\<close>

fun parse_from_yaml :: "os_env \<Rightarrow> nat \<Rightarrow> string \<Rightarrow> error + yaml" where
  "parse_from_yaml env 0 path = Inl RecursionError"
| "parse_from_yaml env (Suc depth) path =
     ebind (yaml_load env path) (\<lambda>dic.
     ebind (py_contains dic ''_base_'') (\<lambda>has_base.
     if has_base then
       let cfg_dir = dirname env path in
       ebind (py_pop dic ''_base_'') (\<lambda>(base_path, dic1).
       (case base_path of
          YStr bp \<Rightarrow>
            ebind (parse_from_yaml env depth (path_join env cfg_dir bp)) (\<lambda>base_dic.
            update_dic dic1 base_dic)
        | _ \<Rightarrow> Inl TypeError))
     else Inr dic))"

subsection \<open>Command-line overrides\<close>

text \<open>\<^verbatim>\<open>key.split('.')\<close>, and \<^verbatim>\<open>zip(opts[0::2], opts[1::2])\<close>.\<close>

fun split_on :: "char \<Rightarrow> string \<Rightarrow> string list" where
  "split_on c [] = [[]]"
| "split_on c (x # xs) =
     (if x = c then [] # split_on c xs
      else (case split_on c xs of [] \<Rightarrow> [[x]] | w # ws \<Rightarrow> (x # w) # ws))"

fun pairs :: "'a list \<Rightarrow> ('a \<times> 'a) list" where
  "pairs (k # v # rest) = (k, v) # pairs rest"
| "pairs [k] = []"
| "pairs [] = []"

text \<open>
  Lines 169 to 173: walking down \<open>key_list[:-1]\<close> with \<^verbatim>\<open>setdefault\<close> and assigning
  at the last key.  The nested dicts are changed in place; here each changed dict
  is stored back under its key.
\<close>

fun set_path :: "yaml \<Rightarrow> string list \<Rightarrow> yaml \<Rightarrow> error + yaml" where
  "set_path v [] x = Inl IndexError"
| "set_path v [k] x = py_setitem v k x"
| "set_path v (k # k2 # ks) x =
     ebind (py_setdefault v k (YDict [])) (\<lambda>v1.
     ebind (py_getitem v1 k) (\<lambda>sub1.
     ebind (set_path sub1 (k2 # ks) x) (\<lambda>sub2.
     py_setitem v1 k sub2)))"

text \<open>Lines 161 to 167: a string value is replaced by its literal value when it has one.\<close>

definition override_value :: "os_env \<Rightarrow> yaml \<Rightarrow> error + yaml" where
  "override_value env v =
     (case v of
        YStr s \<Rightarrow>
          (case literal_eval env s of
             Inr lit \<Rightarrow> Inr lit
           | Inl e \<Rightarrow> if e = ValueError \<or> e = SyntaxError then Inr v else Inl e)
      | _ \<Rightarrow> Inr v)"

fun apply_opts :: "os_env \<Rightarrow> (yaml \<times> yaml) list \<Rightarrow> yaml \<Rightarrow> error + yaml" where
  "apply_opts env [] d = Inr d"
| "apply_opts env ((key, v) # rest) d =
     ebind (override_value env v) (\<lambda>v1.
     ebind (case key of YStr k \<Rightarrow> Inr (split_on CHR ''.'' k) | _ \<Rightarrow> Inl AttributeError)
       (\<lambda>key_list.
     ebind (set_path d key_list v1) (\<lambda>d1.
     apply_opts env rest d1)))"

text \<open>
  \<^verbatim>\<open>Config.update\<close>, on the dict \<^verbatim>\<open>self.dic\<close>.  \<open>YNone\<close> is the default \<^verbatim>\<open>None\<close> of
  \<open>learning_rate\<close>, \<open>batch_size\<close> and \<open>iters\<close>; \<open>opts\<close> is \<open>None\<close> or a list.
\<close>

definition Config_update ::
  "os_env \<Rightarrow> yaml \<Rightarrow> yaml \<Rightarrow> yaml \<Rightarrow> yaml \<Rightarrow> yaml list option \<Rightarrow> error + yaml" where
  "Config_update env d learning_rate batch_size iters opts =
     ebind (if truthy learning_rate then
              ebind (py_contains d ''lr_scheduler'') (\<lambda>has.
              if has then
                ebind (py_getitem d ''lr_scheduler'') (\<lambda>sub1.
                ebind (py_setitem sub1 ''learning_rate'' learning_rate) (\<lambda>sub2.
                py_setitem d ''lr_scheduler'' sub2))
              else
                ebind (py_getitem d ''learning_rate'') (\<lambda>sub1.
                ebind (py_setitem sub1 ''value'' learning_rate) (\<lambda>sub2.
                py_setitem d ''learning_rate'' sub2)))
            else Inr d) (\<lambda>d1.
     ebind (if truthy batch_size then py_setitem d1 ''batch_size'' batch_size else Inr d1) (\<lambda>d2.
     ebind (if truthy iters then py_setitem d2 ''iters'' iters else Inr d2) (\<lambda>d3.
     (case opts of
        None \<Rightarrow> Inr d3
      | Some os \<Rightarrow>
          if length os mod 2 \<noteq> 0 \<or> length os = 0 then Inl ValueError
          else apply_opts env (pairs os) d3))))"

subsection \<open>The component registry and the objects built from it\<close>

text \<open>
  The five registries of \<^verbatim>\<open>paddleseg.cvlibs.manager\<close>, each a mapping from a name to
  a component (a class or function, of type \<open>'c\<close>); the module is not part of the
  two files, so the registries are a parameter.  \<^verbatim>\<open>com.components_dict\<close> is the
  mapping and \<^verbatim>\<open>com[name]\<close> looks the name up in it.
\<close>

record 'c manager =
  MODELS :: "string \<Rightarrow> 'c option"
  BACKBONES :: "string \<Rightarrow> 'c option"
  DATASETS :: "string \<Rightarrow> 'c option"
  TRANSFORMS :: "string \<Rightarrow> 'c option"
  LOSSES :: "string \<Rightarrow> 'c option"

text \<open>
  A call \<^verbatim>\<open>component(**params)\<close> is not run: it is recorded.  The heap is the list of
  the instances built so far, each the component and the keyword arguments it was
  called with; an instance is identified by its position.  A keyword argument is a
  loaded value passed as it is, a built instance, or a list of these.
\<close>

datatype kwarg = Plain yaml | Obj nat | Items "kwarg list"

type_synonym 'c built = "'c \<times> (string \<times> kwarg) list"

type_synonym 'c heap = "'c built list"

text \<open>
  What the loader observes of a built instance: its truth value (\<^verbatim>\<open>not self._model\<close>;
  an object is true unless its class defines \<^verbatim>\<open>__bool__\<close> or \<^verbatim>\<open>__len__\<close> otherwise), its
  attribute \<^verbatim>\<open>ignore_index\<close>, and the comparison \<^verbatim>\<open>==\<close> of a loaded value with that
  attribute.
\<close>

record 'c objects =
  instance_truthy :: "'c built \<Rightarrow> bool"
  ignore_index_of :: "'c built \<Rightarrow> error + yaml"
  py_eq :: "yaml \<Rightarrow> yaml \<Rightarrow> bool"

text \<open>\<^verbatim>\<open>Config._load_component\<close>: the \<^verbatim>\<open>for\<close> loop over \<open>com_list\<close> with its \<^verbatim>\<open>else\<close>.\<close>

fun find_component :: "(string \<Rightarrow> 'c option) list \<Rightarrow> string \<Rightarrow> error + 'c" where
  "find_component [] com_name = Inl RuntimeError"
| "find_component (com # coms) com_name =
     (if com com_name \<noteq> None
      then (case com com_name of None \<Rightarrow> Inl KeyError | Some c \<Rightarrow> Inr c)
      else find_component coms com_name)"

definition load_component :: "'c manager \<Rightarrow> string \<Rightarrow> error + 'c" where
  "load_component mgr com_name =
     find_component [MODELS mgr, BACKBONES mgr, DATASETS mgr, TRANSFORMS mgr, LOSSES mgr] com_name"

text \<open>
  The value under \<^verbatim>\<open>'type'\<close> need not be a string: a list or a dict is unhashable, so
  the membership test raises \<^verbatim>\<open>TypeError\<close>; any other value is a key of no registry.
\<close>

definition load_component_of :: "'c manager \<Rightarrow> yaml \<Rightarrow> error + 'c" where
  "load_component_of mgr t =
     (case t of YStr com_name \<Rightarrow> load_component mgr com_name
      | YList l \<Rightarrow> Inl TypeError
      | YDict d \<Rightarrow> Inl TypeError
      | _ \<Rightarrow> Inl RuntimeError)"

text \<open>\<^verbatim>\<open>Config._is_meta_type\<close>.\<close>

definition is_meta_type :: "yaml \<Rightarrow> bool" where
  "is_meta_type item = (case item of YDict d \<Rightarrow> ''type'' \<in> keys d | _ \<Rightarrow> False)"

text \<open>
  The dict of the caller after a call of \<^verbatim>\<open>_load_object\<close>.  \<^verbatim>\<open>cfg.copy()\<close> is shallow:
  the copy holds the very values the caller's dict holds, so what the loop leaves
  of them is what the caller's dict has afterwards; \<^verbatim>\<open>pop('type')\<close> is applied to the
  copy, so the caller's dict keeps its \<^verbatim>\<open>type\<close> entry.  \<open>restore d items1\<close> is \<open>d\<close>
  with the entries other than \<^verbatim>\<open>type\<close> replaced, in order, by the entries \<open>items1\<close> of
  the copy after the loop.
\<close>

fun restore :: "(string \<times> yaml) list \<Rightarrow> (string \<times> yaml) list \<Rightarrow> (string \<times> yaml) list" where
  "restore [] items1 = []"
| "restore ((k, v) # d) items1 =
     (if k = ''type'' then (k, v) # restore d items1
      else (case items1 of
              [] \<Rightarrow> (k, v) # restore d []
            | kv1 # rest1 \<Rightarrow> kv1 # restore d rest1))"

text \<open>
  \<^verbatim>\<open>Config._load_object\<close>.  \<open>cfg.copy()\<close> gives a new dict with the items of \<open>d\<close> and
  \<^verbatim>\<open>pop('type')\<close> removes the key from that copy: the loop runs over
  \<open>AList.delete ''type'' d\<close>.  \<open>load_params\<close> is the \<^verbatim>\<open>for\<close> loop filling \<open>params\<close>,
  \<open>load_list\<close> the list comprehension; only a value of the dict and an item of a
  list value are looked at, nothing deeper.  Each function returns, besides its
  result and the heap, the objects it was handed as they are when it returns: the
  argument \<open>cfg\<close> of the caller, the items of the loop, the items of the list.
\<close>

function load_object :: "'c manager \<Rightarrow> 'c heap \<Rightarrow> yaml \<Rightarrow> error + (nat \<times> 'c heap \<times> yaml)"
and load_params ::
  "'c manager \<Rightarrow> 'c heap \<Rightarrow> (string \<times> yaml) list \<Rightarrow> (string \<times> kwarg) list
     \<Rightarrow> error + ((string \<times> kwarg) list \<times> 'c heap \<times> (string \<times> yaml) list)"
and load_list ::
  "'c manager \<Rightarrow> 'c heap \<Rightarrow> yaml list \<Rightarrow> error + (kwarg list \<times> 'c heap \<times> yaml list)" where
  "load_object mgr h cfg =
     (case cfg of
        YDict d \<Rightarrow>
          (case map_of d ''type'' of
             None \<Rightarrow> Inl RuntimeError
           | Some t \<Rightarrow>
               (case load_component_of mgr t of
                  Inl e \<Rightarrow> Inl e
                | Inr component \<Rightarrow>
                    (case load_params mgr h (AList.delete ''type'' d) [] of
                       Inl e \<Rightarrow> Inl e
                     | Inr (params, h1, items1) \<Rightarrow>
                         Inr (length h1, h1 @ [(component, params)], YDict (restore d items1)))))
      | YList l \<Rightarrow> (if YStr ''type'' \<in> set l then Inl TypeError else Inl RuntimeError)
      | _ \<Rightarrow> Inl AttributeError)"
| "load_params mgr h [] params = Inr (params, h, [])"
| "load_params mgr h ((key, val) # rest) params =
     (if is_meta_type val then
        (case load_object mgr h val of
           Inl e \<Rightarrow> Inl e
         | Inr (ob, h1, val1) \<Rightarrow>
             (case load_params mgr h1 rest (AList.update key (Obj ob) params) of
                Inl e \<Rightarrow> Inl e
              | Inr (params1, h2, rest1) \<Rightarrow> Inr (params1, h2, (key, val1) # rest1)))
      else
        (case val of
           YList l \<Rightarrow>
             (case load_list mgr h l of
                Inl e \<Rightarrow> Inl e
              | Inr (its, h1, l1) \<Rightarrow>
                  (case load_params mgr h1 rest (AList.update key (Items its) params) of
                     Inl e \<Rightarrow> Inl e
                   | Inr (params1, h2, rest1) \<Rightarrow> Inr (params1, h2, (key, YList l1) # rest1)))
         | _ \<Rightarrow>
             (case load_params mgr h rest (AList.update key (Plain val) params) of
                Inl e \<Rightarrow> Inl e
              | Inr (params1, h2, rest1) \<Rightarrow> Inr (params1, h2, (key, val) # rest1))))"
| "load_list mgr h [] = Inr ([], h, [])"
| "load_list mgr h (item # items) =
     (if is_meta_type item then
        (case load_object mgr h item of
           Inl e \<Rightarrow> Inl e
         | Inr (ob, h1, item1) \<Rightarrow>
             (case load_list mgr h1 items of
                Inl e \<Rightarrow> Inl e
              | Inr (its, h2, items1) \<Rightarrow> Inr (Obj ob # its, h2, item1 # items1)))
      else
        (case load_list mgr h items of
           Inl e \<Rightarrow> Inl e
         | Inr (its, h1, items1) \<Rightarrow> Inr (Plain item # its, h1, item # items1)))"
  by pat_completeness auto
termination
proof (relation "measure (\<lambda>x. case x of
          Inl (mgr, h, cfg) \<Rightarrow> 2 * size cfg
        | Inr (Inl (mgr, h, d, params)) \<Rightarrow> 2 * size_list (size_prod (\<lambda>_. 0) size) d + 1
        | Inr (Inr (mgr, h, l)) \<Rightarrow> 2 * size_list size l + 1)", goal_cases)
  case (2 mgr h cfg d t component)
  have "size_list f (AList.delete k al) \<le> size_list f al" for f k and al :: "(string \<times> yaml) list"
    by (induction al) (auto simp: AList.delete_eq)
  from this [of "size_prod (\<lambda>_. 0) size" "''type''" d] 2 show ?case
    by simp
qed simp_all

declare load_object.simps [simp del]

text \<open>
  How a value of the config reaches the constructor, between a heap \<open>h\<close> before
  and a heap \<open>h1\<close> after: an item that is a dict with a \<^verbatim>\<open>type\<close> key is the instance
  some call of \<open>load_object\<close> built from it in between (a call that left the item as
  it was), any other item is passed as it is; a value that is such a dict is built, a list is passed item by item,
  any other value is passed as it is.
\<close>

definition item_built :: "'c manager \<Rightarrow> 'c heap \<Rightarrow> 'c heap \<Rightarrow> yaml \<Rightarrow> kwarg \<Rightarrow> bool" where
  "item_built mgr h h1 item kw =
     (if is_meta_type item
      then (\<exists>ob ha hb. kw = Obj ob \<and> prefix h ha \<and> prefix hb h1 \<and>
              load_object mgr ha item = Inr (ob, hb, item))
      else kw = Plain item)"

definition value_passed :: "'c manager \<Rightarrow> 'c heap \<Rightarrow> 'c heap \<Rightarrow> yaml \<Rightarrow> kwarg \<Rightarrow> bool" where
  "value_passed mgr h h1 val kw =
     (if is_meta_type val then item_built mgr h h1 val kw
      else (case val of
              YList l \<Rightarrow> (\<exists>its. kw = Items its \<and> list_all2 (item_built mgr h h1) l its)
            | _ \<Rightarrow> kw = Plain val))"

subsection \<open>The Config object\<close>

text \<open>
  The attributes of a \<^verbatim>\<open>Config\<close>: \<^verbatim>\<open>self.dic\<close>, \<^verbatim>\<open>self._model\<close>, \<^verbatim>\<open>self._losses\<close> and
  \<^verbatim>\<open>self._distill_losses\<close>.  \<open>None\<close> is Python's \<^verbatim>\<open>None\<close> for the first two caches, and
  for the last one the absence of the attribute (it is tested with \<^verbatim>\<open>hasattr\<close>).
\<close>

record Config =
  dic :: yaml
  model_attr :: "nat option"
  losses_attr :: "(string \<times> kwarg) list option"
  distill_losses_attr :: "(string \<times> kwarg) list option"

definition train_dataset_config :: "Config \<Rightarrow> error + yaml" where
  "train_dataset_config self = ebind (py_get (dic self) ''train_dataset'' (YDict [])) py_copy"

definition val_dataset_config :: "Config \<Rightarrow> error + yaml" where
  "val_dataset_config self = ebind (py_get (dic self) ''val_dataset'' (YDict [])) py_copy"

text \<open>
  The property \<^verbatim>\<open>train_dataset\<close>: every access builds a new dataset, from a new copy
  of the dataset config.
\<close>

definition train_dataset ::
  "'c manager \<Rightarrow> Config \<Rightarrow> 'c heap \<Rightarrow> error + (nat option \<times> 'c heap)" where
  "train_dataset mgr self h =
     ebind (train_dataset_config self) (\<lambda>cfg.
     if \<not> truthy cfg then Inr (None, h)
     else ebind (load_object mgr h cfg) (\<lambda>(ob, h1, cfg1). Inr (Some ob, h1)))"

text \<open>\<^verbatim>\<open>self.train_dataset.ignore_index\<close>; \<^verbatim>\<open>None\<close> has no such attribute.\<close>

definition train_ignore_index ::
  "'c manager \<Rightarrow> 'c objects \<Rightarrow> Config \<Rightarrow> 'c heap \<Rightarrow> error + (yaml \<times> 'c heap)" where
  "train_ignore_index mgr obs self h =
     ebind (train_dataset mgr self h) (\<lambda>(ds, h1).
     (case ds of
        None \<Rightarrow> Inl AttributeError
      | Some ob \<Rightarrow> ebind (ignore_index_of obs (h1 ! ob)) (\<lambda>v. Inr (v, h1))))"

subsection \<open>Preparing the losses\<close>

text \<open>
  Lines 332 to 345 of \<^verbatim>\<open>Config._prepare_loss\<close>: the checked copy of the loss config.
  The second component tells whether \<open>types\<close> was replicated, in which case every
  element of the new list is the one item object of the old list.
\<close>

definition loss_args :: "Config \<Rightarrow> string \<Rightarrow> error + (yaml \<times> bool)" where
  "loss_args self loss_name =
     ebind (py_get (dic self) loss_name (YDict [])) (\<lambda>v.
     ebind (py_copy v) (\<lambda>args.
     ebind (py_contains args ''types'') (\<lambda>has_types.
     ebind (if has_types then py_contains args ''coef'' else Inr False) (\<lambda>has_both.
     if has_both then
       ebind (py_getitem args ''types'') (\<lambda>types.
       ebind (py_len types) (\<lambda>len_types.
       ebind (py_getitem args ''coef'') (\<lambda>coef.
       ebind (py_len coef) (\<lambda>len_coef.
       if len_types \<noteq> len_coef then
         if len_types = 1 then
           ebind (py_getitem args ''types'') (\<lambda>types1.
           ebind (py_repeat types1 len_coef) (\<lambda>rep.
           ebind (py_setitem args ''types'' rep) (\<lambda>args1. Inr (args1, True))))
         else Inl ValueError
       else Inr (args, False)))))
     else Inl ValueError))))"

text \<open>
  Lines 351 to 360: the loop over \<^verbatim>\<open>args['types']\<close>.  The items are objects that the
  loop changes in place (\<^verbatim>\<open>item['ignore_index'] = ...\<close>), and after a replication
  the list holds one object several times.  So the loop state is the list \<open>objs\<close> of
  the distinct item objects with their current values, and the loop runs over
  indices into it; \<open>acc\<close> is \<^verbatim>\<open>losses['types']\<close>.
\<close>

fun load_loss_types ::
  "'c manager \<Rightarrow> 'c objects \<Rightarrow> Config \<Rightarrow> 'c heap \<Rightarrow> yaml list \<Rightarrow> nat list \<Rightarrow> kwarg list
     \<Rightarrow> error + (kwarg list \<times> yaml list \<times> 'c heap)" where
  "load_loss_types mgr obs self h objs [] acc = Inr (acc, objs, h)"
| "load_loss_types mgr obs self h objs (r # rs) acc =
     (let item = objs ! r in
      ebind (py_getitem item ''type'') (\<lambda>t.
      ebind (if t \<noteq> YStr ''MixedLoss'' then
               ebind (py_contains item ''ignore_index'') (\<lambda>has.
               ebind (if has then
                        ebind (py_getitem item ''ignore_index'') (\<lambda>v.
                        ebind (train_ignore_index mgr obs self h) (\<lambda>(ii, h1).
                        if py_eq obs v ii then Inr h1 else Inl AssertionError))
                      else Inr h) (\<lambda>h1.
               ebind (train_ignore_index mgr obs self h1) (\<lambda>(ii, h2).
               ebind (py_setitem item ''ignore_index'' ii) (\<lambda>item1. Inr (item1, h2)))))
             else Inr (item, h)) (\<lambda>(item1, h2).
      ebind (load_object mgr h2 item1) (\<lambda>(ob, h3, item2).
      load_loss_types mgr obs self h3 (objs[r := item2]) rs (acc @ [Obj ob])))))"

text \<open>
  Lines 347 to 362: the loop over \<^verbatim>\<open>args.items()\<close> filling \<open>losses\<close>.  The fourth
  component of the state is the list of the item objects after the loop over
  \<^verbatim>\<open>'types'\<close> (empty before it).
\<close>

fun fill_losses ::
  "'c manager \<Rightarrow> 'c objects \<Rightarrow> Config \<Rightarrow> yaml \<Rightarrow> bool \<Rightarrow> (string \<times> yaml) list
     \<Rightarrow> (string \<times> kwarg) list \<Rightarrow> yaml list \<Rightarrow> 'c heap
     \<Rightarrow> error + ((string \<times> kwarg) list \<times> yaml list \<times> 'c heap)" where
  "fill_losses mgr obs self args shared [] losses objs h = Inr (losses, objs, h)"
| "fill_losses mgr obs self args shared ((key, val) # rest) losses objs h =
     (if key = ''types'' then
        ebind (py_getitem args ''types'') (\<lambda>types.
        ebind (py_iter types) (\<lambda>its.
        ebind (load_loss_types mgr obs self h
                 (if shared then take 1 its else its)
                 (if shared then map (\<lambda>_. 0) its else [0..<length its]) [])
          (\<lambda>(built, objs1, h1).
        fill_losses mgr obs self args shared rest
          (AList.update ''types'' (Items built) losses) objs1 h1)))
      else
        fill_losses mgr obs self args shared rest (AList.update key (Plain val) losses) objs h)"

text \<open>\<^verbatim>\<open>len\<close> of a value of \<open>losses\<close>; a built instance is not asked for its length here.\<close>

definition kwarg_len :: "kwarg \<Rightarrow> error + nat" where
  "kwarg_len k = (case k of Plain v \<Rightarrow> py_len v | Items l \<Rightarrow> Inr (length l)
                  | Obj ob \<Rightarrow> Inl TypeError)"

text \<open>
  The loop changed the item objects, which \<^verbatim>\<open>self.dic\<close> holds as well: the list
  under \<^verbatim>\<open>self.dic[loss_name]['types']\<close> now has the changed items.
\<close>

definition store_items :: "yaml \<Rightarrow> string \<Rightarrow> yaml list \<Rightarrow> yaml" where
  "store_items d loss_name objs =
     (if objs = [] then d
      else (case d of
              YDict entries \<Rightarrow>
                (case map_of entries loss_name of
                   Some (YDict sub1) \<Rightarrow>
                     YDict (AList.update loss_name
                              (YDict (AList.update ''types'' (YList objs) sub1)) entries)
                 | _ \<Rightarrow> d)
            | _ \<Rightarrow> d))"

text \<open>
  \<^verbatim>\<open>Config._prepare_loss\<close>, called with \<^verbatim>\<open>'loss'\<close> and \<^verbatim>\<open>'distill_loss'\<close>.  The result is
  the dict \<open>losses\<close>, the config and the heap.
\<close>

definition prepare_loss ::
  "'c manager \<Rightarrow> 'c objects \<Rightarrow> Config \<Rightarrow> 'c heap \<Rightarrow> string
     \<Rightarrow> error + ((string \<times> kwarg) list \<times> Config \<times> 'c heap)" where
  "prepare_loss mgr obs self h loss_name =
     ebind (loss_args self loss_name) (\<lambda>(args, shared).
     (case args of
        YDict items \<Rightarrow>
          ebind (fill_losses mgr obs self args shared items [] [] h) (\<lambda>(losses, objs, h1).
          ebind (getitem losses ''coef'') (\<lambda>coef.
          ebind (kwarg_len coef) (\<lambda>len_coef.
          ebind (getitem losses ''types'') (\<lambda>types.
          ebind (kwarg_len types) (\<lambda>len_types.
          if len_coef \<noteq> len_types then Inl RuntimeError
          else Inr (losses, self\<lparr>dic := store_items (dic self) loss_name objs\<rparr>, h1))))))
      | _ \<Rightarrow> Inl AttributeError))"

subsection \<open>The cached properties\<close>


text \<open>The property \<^verbatim>\<open>distill_loss\<close>.\<close>

definition distill_loss ::
  "'c manager \<Rightarrow> 'c objects \<Rightarrow> Config \<Rightarrow> 'c heap
     \<Rightarrow> error + ((string \<times> kwarg) list \<times> Config \<times> 'c heap)" where
  "distill_loss mgr obs self h =
     (case distill_losses_attr self of
        None \<Rightarrow>
          ebind (prepare_loss mgr obs self h ''distill_loss'') (\<lambda>(losses, self1, h1).
          Inr (losses, self1\<lparr>distill_losses_attr := Some losses\<rparr>, h1))
      | Some losses \<Rightarrow> Inr (losses, self, h))"

text \<open>
  The property \<^verbatim>\<open>model\<close>.  \<^verbatim>\<open>not self._model\<close> holds for \<^verbatim>\<open>None\<close> and for an instance
  whose truth value is false.
\<close>

definition model ::
  "'c manager \<Rightarrow> 'c objects \<Rightarrow> Config \<Rightarrow> 'c heap \<Rightarrow> error + (nat \<times> Config \<times> 'c heap)" where
  "model mgr obs self h =
     ebind (py_get (dic self) ''model'' YNone) (\<lambda>m.
     ebind (py_copy m) (\<lambda>model_cfg.
     if (case model_attr self of None \<Rightarrow> True | Some ob \<Rightarrow> \<not> instance_truthy obs (h ! ob))
     then ebind (load_object mgr h model_cfg) (\<lambda>(ob, h1, cfg1).
          Inr (ob, self\<lparr>model_attr := Some ob\<rparr>, h1))
     else (case model_attr self of
             None \<Rightarrow> Inl AttributeError
           | Some ob \<Rightarrow> Inr (ob, self, h))))"

subsection \<open>The constructor\<close>

text \<open>
  \<^verbatim>\<open>Config.__init__\<close>.  It takes no heap and returns none: it calls nothing that
  builds an instance.  In \<^verbatim>\<open>(not A) and (not B)\<close> the second property is read only
  when the first config is empty.
\<close>

definition Config_init ::
  "os_env \<Rightarrow> string \<Rightarrow> yaml \<Rightarrow> yaml \<Rightarrow> yaml \<Rightarrow> yaml list option \<Rightarrow> error + Config" where
  "Config_init env path learning_rate batch_size iters opts =
     (if path = [] then Inl ValueError
      else if \<not> path_exists env path then Inl FileNotFoundError
      else if suffix ''yml'' path \<or> suffix ''yaml'' path then
        ebind (parse_from_yaml env (recursion_limit env) path) (\<lambda>d.
        ebind (Config_update env d learning_rate batch_size iters opts) (\<lambda>d1.
        let self = \<lparr>dic = d1, model_attr = None, losses_attr = None,
                    distill_losses_attr = None\<rparr> in
        ebind (py_get (dic self) ''model'' YNone) (\<lambda>model_cfg.
        if model_cfg = YNone then Inl RuntimeError
        else
          ebind (train_dataset_config self) (\<lambda>tc.
          ebind (if \<not> truthy tc then val_dataset_config self else Inr (YBool True)) (\<lambda>vc.
          if \<not> truthy tc \<and> \<not> truthy vc then Inl ValueError else Inr self)))))
      else Inl RuntimeError)"

subsection \<open>The merge, entry by entry\<close>


subsection \<open>A small file system and registry for evaluation\<close>

text \<open>
  The config file \<^verbatim>\<open>configs/child.yml\<close> with the base \<^verbatim>\<open>base.yml\<close> beside it, a config
  without a model, one without datasets, and a file that is not YAML; a
  \<^verbatim>\<open>dirname\<close> that cuts a path at its last slash and a \<^verbatim>\<open>join\<close> that puts a slash
  between its arguments; a \<^verbatim>\<open>literal_eval\<close> that knows the literal \<^verbatim>\<open>8\<close>.
\<close>

definition child_yml :: "(string \<times> yaml) list" where
  "child_yml =
     [(''_base_'', YStr ''base.yml''),
      (''batch_size'', YInt 4),
      (''model'', YDict [(''type'', YStr ''UNet''), (''num_classes'', YInt 2)]),
      (''loss'', YDict [(''_inherited_'', YBool False),
                        (''types'', YList [YDict [(''type'', YStr ''CrossEntropyLoss'')]]),
                        (''coef'', YList [YInt 1, YInt 1])])]"

definition base_yml :: "(string \<times> yaml) list" where
  "base_yml =
     [(''iters'', YInt 1000),
      (''model'', YDict [(''type'', YStr ''FCN''), (''pretrained'', YNone)]),
      (''loss'', YDict [(''types'', YList [YDict [(''type'', YStr ''DiceLoss'')]]),
                        (''coef'', YList [YInt 1])]),
      (''train_dataset'', YDict [(''type'', YStr ''Cityscapes''), (''mode'', YStr ''train'')])]"

definition merged_yml :: "(string \<times> yaml) list" where
  "merged_yml =
     [(''iters'', YInt 1000),
      (''model'', YDict [(''type'', YStr ''UNet''), (''pretrained'', YNone),
                         (''num_classes'', YInt 2)]),
      (''loss'', YDict [(''types'', YList [YDict [(''type'', YStr ''CrossEntropyLoss'')]]),
                        (''coef'', YList [YInt 1, YInt 1])]),
      (''train_dataset'', YDict [(''type'', YStr ''Cityscapes''), (''mode'', YStr ''train'')]),
      (''batch_size'', YInt 4)]"

definition toy_env :: os_env where
  "toy_env =
     \<lparr> path_exists = (\<lambda>p. p \<in> set [''configs/child.yml'', ''configs/base.yml'',
                                       ''configs/notes.txt'', ''configs/nomodel.yml'',
                                       ''configs/nodata.yml'']),
       yaml_load = (\<lambda>p. if p = ''configs/child.yml'' then Inr (YDict child_yml)
                         else if p = ''configs/base.yml'' then Inr (YDict base_yml)
                         else if p = ''configs/nomodel.yml'' then Inr (YDict [(''batch_size'', YInt 2)])
                         else if p = ''configs/nodata.yml''
                           then Inr (YDict [(''model'', YDict [(''type'', YStr ''FCN'')]),
                                            (''val_dataset'', YDict [])])
                         else Inl FileNotFoundError),
       dirname = (\<lambda>p. rev (drop 1 (dropWhile (\<lambda>c. c \<noteq> CHR ''/'') (rev p)))),
       path_join = (\<lambda>a b. a @ ''/'' @ b),
       literal_eval = (\<lambda>s. if s = ''8'' then Inr (YInt 8) else Inl ValueError),
       recursion_limit = Suc (Suc (Suc 0)) \<rparr>"

text \<open>
  A registry with the components the two files name (a component is its name
  here), and two ways built instances can behave: all true, or all false (as
  instances of a class with \<^verbatim>\<open>__len__\<close> returning 0 are).
\<close>

definition toy_manager :: "string manager" where
  "toy_manager =
     \<lparr> MODELS = map_of [(''UNet'', ''models.UNet''), (''FCN'', ''models.FCN'')],
       BACKBONES = map_of [(''ResNet50'', ''backbones.ResNet50''), (''UNet'', ''backbones.UNet'')],
       DATASETS = map_of [(''Cityscapes'', ''datasets.Cityscapes'')],
       TRANSFORMS = map_of [(''Normalize'', ''transforms.Normalize'')],
       LOSSES = map_of [(''CrossEntropyLoss'', ''losses.CrossEntropyLoss''),
                        (''DiceLoss'', ''losses.DiceLoss''),
                        (''ResNet50'', ''losses.ResNet50''),
                        (''MixedLoss'', ''losses.MixedLoss'')] \<rparr>"










text \<open>
  A model config with a nested backbone, a list of transforms, and a dict without
  \<^verbatim>\<open>type\<close> that holds a dict with \<^verbatim>\<open>type\<close>: this one is passed as it is, not built.
\<close>

definition toy_model_cfg :: "(string \<times> yaml) list" where
  "toy_model_cfg =
     [(''type'', YStr ''UNet''),
      (''num_classes'', YInt 2),
      (''backbone'', YDict [(''type'', YStr ''ResNet50''), (''depth'', YInt 50)]),
      (''transforms'', YList [YDict [(''type'', YStr ''Normalize'')], YInt 3]),
      (''extra'', YDict [(''alpha'', YInt 1), (''inner'', YDict [(''type'', YStr ''FCN'')])])]"

definition toy_model_heap :: "string heap" where
  "toy_model_heap =
     [(''backbones.ResNet50'', [(''depth'', Plain (YInt 50))]),
      (''transforms.Normalize'', [])]"

definition toy_model_params :: "(string \<times> kwarg) list" where
  "toy_model_params =
     [(''num_classes'', Plain (YInt 2)),
      (''backbone'', Obj 0),
      (''transforms'', Items [Obj 1, Plain (YInt 3)]),
      (''extra'', Plain (YDict [(''alpha'', YInt 1),
                                (''inner'', YDict [(''type'', YStr ''FCN'')])]))]"


section \<open>Properties of the CenterNet head\<close>

lemma ebind_Inr: "ebind m f = Inr y \<longleftrightarrow> (\<exists>x. m = Inr x \<and> f x = Inr y)"
  by (cases m) (simp_all add: ebind_def)

lemma ebind_simps [simp]: "ebind (Inl e) f = Inl e" "ebind (Inr x) f = f x"
  by (simp_all add: ebind_def)

lemma assemble_losses_Inr:
  "assemble_losses rt w hl slv ol ilv = Inr losses \<longleftrightarrow>
     (\<exists>sl wh ws wo a b ab c det.
           slv = Some sl \<and>
           getitem w ''heatmap'' = Inr wh \<and> getitem w ''size'' = Inr ws \<and>
           getitem w ''offset'' = Inr wo \<and>
           scale rt wh hl = Inr a \<and> scale rt ws sl = Inr b \<and> tadd rt a b = Inr ab \<and>
           scale rt wo ol = Inr c \<and> tadd rt ab c = Inr det \<and>
           (case ilv of
              None \<Rightarrow> losses = [(''heatmap_loss'', hl), (''size_loss'', sl), (''offset_loss'', ol),
                                 (''det_loss'', det)]
            | Some il \<Rightarrow> (\<exists>wi d det1. getitem w ''iou'' = Inr wi \<and> scale rt wi il = Inr d \<and>
                   tadd rt det d = Inr det1 \<and>
                   losses = [(''heatmap_loss'', hl), (''size_loss'', sl), (''offset_loss'', ol),
                             (''iou_loss'', il), (''det_loss'', det1)])))"
  unfolding assemble_losses_def Let_def
  by (cases slv; cases ilv) (auto simp: ebind_Inr)

lemma iou_var_Inr:
  "(case iou of None \<Rightarrow> Inr None
    | Some iou_pred \<Rightarrow> ebind (g iou_pred) (\<lambda>l. Inr (Some l))) = Inr v \<longleftrightarrow>
   (case iou of None \<Rightarrow> v = None | Some iou_pred \<Rightarrow> (\<exists>il. g iou_pred = Inr il \<and> v = Some il))"
  by (cases iou) (auto simp: ebind_Inr)

lemma get_loss_Inr_iff:
  "get_loss rt self inputs w heatmap size_pred offset iou = Inr losses \<longleftrightarrow>
     (\<exists>hl index m ps sm pn sl ol wh ws wo a b ab c det.
        heatmap_head_loss rt inputs heatmap = Inr hl \<and>
        gather_positions rt inputs size_pred = Inr (index, m, ps, sm, pn) \<and>
        size_head_loss rt (size_loss self) (regress_ltrb self) inputs ps sm pn = Inr (Some sl) \<and>
        offset_head_loss rt inputs offset index m = Inr ol \<and>
        getitem w ''heatmap'' = Inr wh \<and> getitem w ''size'' = Inr ws \<and>
        getitem w ''offset'' = Inr wo \<and>
        scale rt wh hl = Inr a \<and> scale rt ws sl = Inr b \<and> tadd rt a b = Inr ab \<and>
        scale rt wo ol = Inr c \<and> tadd rt ab c = Inr det \<and>
        (case iou of
           None \<Rightarrow>
             losses = [(''heatmap_loss'', hl), (''size_loss'', sl), (''offset_loss'', ol),
                       (''det_loss'', det)]
         | Some iou_pred \<Rightarrow>
             (\<exists>il wi d det1.
                iou_head_loss rt inputs iou_pred index m ps = Inr il \<and>
                getitem w ''iou'' = Inr wi \<and> scale rt wi il = Inr d \<and>
                tadd rt det d = Inr det1 \<and>
                losses = [(''heatmap_loss'', hl), (''size_loss'', sl), (''offset_loss'', ol),
                          (''iou_loss'', il), (''det_loss'', det1)])))"
  (is "?L \<longleftrightarrow> ?R")
proof
  assume ?L
  then obtain hl index m ps sm pn slv ol ilv where
    h: "heatmap_head_loss rt inputs heatmap = Inr hl"
    and g: "gather_positions rt inputs size_pred = Inr (index, m, ps, sm, pn)"
    and s: "size_head_loss rt (size_loss self) (regress_ltrb self) inputs ps sm pn = Inr slv"
    and off: "offset_head_loss rt inputs offset index m = Inr ol"
    and i: "(case iou of None \<Rightarrow> ilv = None
             | Some iou_pred \<Rightarrow> (\<exists>il. iou_head_loss rt inputs iou_pred index m ps = Inr il \<and> ilv = Some il))"
    and a: "assemble_losses rt w hl slv ol ilv = Inr losses"
    unfolding get_loss_def by (auto simp: ebind_Inr iou_var_Inr)
  from a obtain sl wh ws wo a b ab c det where
    r: "slv = Some sl" "getitem w ''heatmap'' = Inr wh" "getitem w ''size'' = Inr ws"
       "getitem w ''offset'' = Inr wo" "scale rt wh hl = Inr a" "scale rt ws sl = Inr b"
       "tadd rt a b = Inr ab" "scale rt wo ol = Inr c" "tadd rt ab c = Inr det"
    and rest: "(case ilv of
              None \<Rightarrow> losses = [(''heatmap_loss'', hl), (''size_loss'', sl), (''offset_loss'', ol),
                                 (''det_loss'', det)]
            | Some il \<Rightarrow> (\<exists>wi d det1. getitem w ''iou'' = Inr wi \<and> scale rt wi il = Inr d \<and>
                   tadd rt det d = Inr det1 \<and>
                   losses = [(''heatmap_loss'', hl), (''size_loss'', sl), (''offset_loss'', ol),
                             (''iou_loss'', il), (''det_loss'', det1)]))"
    unfolding assemble_losses_Inr by blast
  have "case iou of
           None \<Rightarrow>
             losses = [(''heatmap_loss'', hl), (''size_loss'', sl), (''offset_loss'', ol),
                       (''det_loss'', det)]
         | Some iou_pred \<Rightarrow>
             (\<exists>il wi d det1.
                iou_head_loss rt inputs iou_pred index m ps = Inr il \<and>
                getitem w ''iou'' = Inr wi \<and> scale rt wi il = Inr d \<and>
                tadd rt det d = Inr det1 \<and>
                losses = [(''heatmap_loss'', hl), (''size_loss'', sl), (''offset_loss'', ol),
                          (''iou_loss'', il), (''det_loss'', det1)])"
    using i rest by (cases iou) auto
  with h g s off r show ?R by blast
next
  assume ?R
  then obtain hl index m ps sm pn sl ol wh ws wo a b ab c det where
    h: "heatmap_head_loss rt inputs heatmap = Inr hl"
    and g: "gather_positions rt inputs size_pred = Inr (index, m, ps, sm, pn)"
    and s: "size_head_loss rt (size_loss self) (regress_ltrb self) inputs ps sm pn = Inr (Some sl)"
    and off: "offset_head_loss rt inputs offset index m = Inr ol"
    and r: "getitem w ''heatmap'' = Inr wh" "getitem w ''size'' = Inr ws"
       "getitem w ''offset'' = Inr wo" "scale rt wh hl = Inr a" "scale rt ws sl = Inr b"
       "tadd rt a b = Inr ab" "scale rt wo ol = Inr c" "tadd rt ab c = Inr det"
    and rest: "case iou of
           None \<Rightarrow>
             losses = [(''heatmap_loss'', hl), (''size_loss'', sl), (''offset_loss'', ol),
                       (''det_loss'', det)]
         | Some iou_pred \<Rightarrow>
             (\<exists>il wi d det1.
                iou_head_loss rt inputs iou_pred index m ps = Inr il \<and>
                getitem w ''iou'' = Inr wi \<and> scale rt wi il = Inr d \<and>
                tadd rt det d = Inr det1 \<and>
                losses = [(''heatmap_loss'', hl), (''size_loss'', sl), (''offset_loss'', ol),
                          (''iou_loss'', il), (''det_loss'', det1)])"
    by blast
  show ?L
  proof (cases iou)
    case None
    with rest r have "assemble_losses rt w hl (Some sl) ol None = Inr losses"
      unfolding assemble_losses_Inr by simp
    with h g s off None show ?thesis unfolding get_loss_def by simp
  next
    case (Some iou_pred)
    with rest obtain il wi d det1 where
      il: "iou_head_loss rt inputs iou_pred index m ps = Inr il"
      and x: "getitem w ''iou'' = Inr wi" "scale rt wi il = Inr d" "tadd rt det d = Inr det1"
        "losses = [(''heatmap_loss'', hl), (''size_loss'', sl), (''offset_loss'', ol),
                          (''iou_loss'', il), (''det_loss'', det1)]"
      by auto
    with r have "assemble_losses rt w hl (Some sl) ol (Some il) = Inr losses"
      unfolding assemble_losses_Inr by simp
    with h g s off Some il show ?thesis unfolding get_loss_def by simp
  qed
qed


lemma size_head_loss_unbound:
  "name \<noteq> ''L1'' \<Longrightarrow> name \<noteq> ''giou'' \<Longrightarrow> size_head_loss rt name ltrb inputs ps sm pn = Inr None"
  by (simp add: size_head_loss_def)

lemma assemble_losses_unbound: "assemble_losses rt w hl None ol ilv = Inl UnboundLocalError"
  by (simp add: assemble_losses_def)

lemma hasattr_iou_weight: "\<not> hasattr self ''iou_weight''"
  by (simp add: hasattr_def split: option.splits)

lemma get_loss_unbound:
  assumes "size_loss self \<noteq> ''L1''" "size_loss self \<noteq> ''giou''"
  shows "get_loss rt self inputs w heatmap size_pred offset iou \<noteq> Inr losses"
  using assms by (simp add: get_loss_Inr_iff size_head_loss_unbound)

lemma forward_training:
  "training self \<Longrightarrow> forward rt self feat inputs =
     ebind (heatmap_branch self feat) (\<lambda>heatmap.
     ebind (size_branch self feat) (\<lambda>size_pred.
     ebind (offset_branch self feat) (\<lambda>offset.
       get_loss rt self inputs (weights self) heatmap size_pred offset None)))"
  by (simp add: forward_def hasattr_iou_weight)

lemma forward_eval:
  "\<not> training self \<Longrightarrow> forward rt self feat inputs =
     ebind (heatmap_branch self feat) (\<lambda>heatmap.
     ebind (size_branch self feat) (\<lambda>size_pred.
     ebind (offset_branch self feat) (\<lambda>offset.
     ebind (sigmoid rt heatmap) (\<lambda>heatmap1.
       Inr [(''heatmap'', heatmap1), (''size'', size_pred), (''offset'', offset)]))))"
  by (simp add: forward_def hasattr_iou_weight)

lemma toy_get_loss_giou:
  "get_loss toy_paddle (CenterNetHead_init toy_paddle 64 80 256 1 True 1 ''giou'' 1 1) toy_inputs
     [(''heatmap'', 1), (''size'', 2), (''offset'', 3), (''iou'', 4)] 90 14 12 (Some 14) =
   Inr [(''heatmap_loss'', 87), (''size_loss'', 7), (''offset_loss'', 5), (''iou_loss'', 7),
        (''det_loss'', 144)]"
  by (simp add: get_loss_def heatmap_head_loss_def gather_positions_def size_head_loss_def
      offset_head_loss_def iou_head_loss_def pred_boxes_around_def assemble_losses_def
      unpack4_def shape_at_def getitem_def toy_paddle_def toy_inputs_def CenterNetHead_init_def)

text \<open>
  Claim C4.  A call of \<open>get_loss\<close> returns a dict exactly when every loss block and
  every weighted product succeeds, and the dict it returns is then
  \<open>heatmap_loss\<close>, \<open>size_loss\<close>, \<open>offset_loss\<close> and \<open>det_loss\<close>, where \<open>det_loss\<close> is
  \<open>weights['heatmap'] * heatmap_loss + weights['size'] * size_loss +
  weights['offset'] * offset_loss\<close> (products and sums of the tensor runtime, in this
  order); when an IoU prediction is passed, and only then, the dict also has
  \<open>iou_loss\<close> and \<open>weights['iou'] * iou_loss\<close> is added to \<open>det_loss\<close>.
\<close>

theorem get_loss_returns_weighted_losses:
  "get_loss rt self inputs w heatmap size_pred offset iou = Inr losses \<longleftrightarrow>
     (\<exists>hl index m ps sm pn sl ol wh ws wo a b ab c det.
        heatmap_head_loss rt inputs heatmap = Inr hl \<and>
        gather_positions rt inputs size_pred = Inr (index, m, ps, sm, pn) \<and>
        size_head_loss rt (size_loss self) (regress_ltrb self) inputs ps sm pn = Inr (Some sl) \<and>
        offset_head_loss rt inputs offset index m = Inr ol \<and>
        getitem w ''heatmap'' = Inr wh \<and> getitem w ''size'' = Inr ws \<and>
        getitem w ''offset'' = Inr wo \<and>
        scale rt wh hl = Inr a \<and> scale rt ws sl = Inr b \<and> tadd rt a b = Inr ab \<and>
        scale rt wo ol = Inr c \<and> tadd rt ab c = Inr det \<and>
        (case iou of
           None \<Rightarrow>
             losses = [(''heatmap_loss'', hl), (''size_loss'', sl), (''offset_loss'', ol),
                       (''det_loss'', det)]
         | Some iou_pred \<Rightarrow>
             (\<exists>il wi d det1.
                iou_head_loss rt inputs iou_pred index m ps = Inr il \<and>
                getitem w ''iou'' = Inr wi \<and> scale rt wi il = Inr d \<and>
                tadd rt det d = Inr det1 \<and>
                losses = [(''heatmap_loss'', hl), (''size_loss'', sl), (''offset_loss'', ol),
                          (''iou_loss'', il), (''det_loss'', det1)])))"
  by (rule get_loss_Inr_iff)

theorem get_loss_returns_weighted_losses_witness:
  "\<exists>hl index m ps sm pn sl ol wh ws wo a b ab c det il wi d det1.
     heatmap_head_loss toy_paddle toy_inputs 90 = Inr hl \<and>
     gather_positions toy_paddle toy_inputs 14 = Inr (index, m, ps, sm, pn) \<and>
     offset_head_loss toy_paddle toy_inputs 12 index m = Inr ol \<and>
     iou_head_loss toy_paddle toy_inputs 14 index m ps = Inr il \<and>
     scale toy_paddle wh hl = Inr a \<and> scale toy_paddle ws sl = Inr b \<and>
     tadd toy_paddle a b = Inr ab \<and> scale toy_paddle wo ol = Inr c \<and>
     tadd toy_paddle ab c = Inr det \<and> scale toy_paddle wi il = Inr d \<and>
     tadd toy_paddle det d = Inr det1 \<and>
     [(''heatmap_loss'', 87), (''size_loss'', 7), (''offset_loss'', 5), (''iou_loss'', 7),
      (''det_loss'', 144 :: int)] =
     [(''heatmap_loss'', hl), (''size_loss'', sl), (''offset_loss'', ol), (''iou_loss'', il),
      (''det_loss'', det1)]"
  using get_loss_returns_weighted_losses [THEN iffD1, OF toy_get_loss_giou]
  by (simp only: option.case) blast

text \<open>
  Claim C10.  A head whose \<open>size_loss\<close> is neither \<^verbatim>\<open>'L1'\<close> nor \<^verbatim>\<open>'giou'\<close> never
  returns from a forward pass in training mode; whenever the three branches and
  the loss blocks before the dict succeed, the exception is the
  \<^verbatim>\<open>UnboundLocalError\<close> raised by reading \<^verbatim>\<open>size_loss\<close> in the dict display.
\<close>

theorem forward_unbound_size_loss:
  assumes "size_loss self \<noteq> ''L1''" "size_loss self \<noteq> ''giou''" "training self"
  shows "(\<exists>e. forward rt self feat inputs = Inl e) \<and>
         (\<forall>heatmap size_pred offset hl index m ps sm pn ol.
            heatmap_branch self feat = Inr heatmap \<and> size_branch self feat = Inr size_pred \<and>
            offset_branch self feat = Inr offset \<and>
            heatmap_head_loss rt inputs heatmap = Inr hl \<and>
            gather_positions rt inputs size_pred = Inr (index, m, ps, sm, pn) \<and>
            offset_head_loss rt inputs offset index m = Inr ol
            \<longrightarrow> forward rt self feat inputs = Inl UnboundLocalError)"
proof
  have "forward rt self feat inputs \<noteq> Inr losses" for losses
    using assms by (auto simp: forward_training ebind_Inr get_loss_unbound)
  then show "\<exists>e. forward rt self feat inputs = Inl e"
    by (cases "forward rt self feat inputs") auto
next
  show "\<forall>heatmap size_pred offset hl index m ps sm pn ol.
            heatmap_branch self feat = Inr heatmap \<and> size_branch self feat = Inr size_pred \<and>
            offset_branch self feat = Inr offset \<and>
            heatmap_head_loss rt inputs heatmap = Inr hl \<and>
            gather_positions rt inputs size_pred = Inr (index, m, ps, sm, pn) \<and>
            offset_head_loss rt inputs offset index m = Inr ol
            \<longrightarrow> forward rt self feat inputs = Inl UnboundLocalError"
    using assms
    by (auto simp: forward_training get_loss_def size_head_loss_unbound assemble_losses_unbound)
qed

theorem forward_unbound_size_loss_witness:
  "size_loss (CenterNetHead_init toy_paddle 64 80 256 1 True 1 ''smooth_l1'' 1 0) \<noteq> ''L1'' \<and>
   size_loss (CenterNetHead_init toy_paddle 64 80 256 1 True 1 ''smooth_l1'' 1 0) \<noteq> ''giou'' \<and>
   training (CenterNetHead_init toy_paddle 64 80 256 1 True 1 ''smooth_l1'' 1 0) \<and>
   forward toy_paddle (CenterNetHead_init toy_paddle 64 80 256 1 True 1 ''smooth_l1'' 1 0)
     10 toy_inputs = Inl UnboundLocalError"
  using forward_unbound_size_loss
    [of "CenterNetHead_init toy_paddle 64 80 256 1 True 1 ''smooth_l1'' 1 0" toy_paddle 10 toy_inputs]
  by (simp add: heatmap_head_loss_def gather_positions_def offset_head_loss_def
      unpack4_def shape_at_def getitem_def toy_paddle_def toy_inputs_def CenterNetHead_init_def)

text \<open>
  Claim C1.  The code does not do what the claim says: \<open>forward\<close> tests
  \<^verbatim>\<open>hasattr(self, 'iou_weight')\<close>, an attribute \<^verbatim>\<open>__init__\<close> never assigns (the weight
  is stored in \<^verbatim>\<open>self.weights['iou']\<close>, the branch in \<^verbatim>\<open>self.iou\<close>).  So for every
  head, also one built with \<open>iou_weight > 0\<close>, no result of \<open>forward\<close> has the key
  \<^verbatim>\<open>iou_loss\<close> (training) or \<^verbatim>\<open>iou\<close> (evaluation).  The evaluation below is a head
  with \<open>iou_weight = 1\<close>: the IoU branch exists, and neither mode uses it.
\<close>

theorem forward_never_uses_iou_branch:
  assumes "forward rt self feat inputs = Inr outs"
  shows "map_of outs ''iou_loss'' = None \<and> map_of outs ''iou'' = None"
proof (cases "training self")
  case True
  with assms obtain heatmap size_pred offset where
    "get_loss rt self inputs (weights self) heatmap size_pred offset None = Inr outs"
    by (auto simp: forward_training ebind_Inr)
  then show ?thesis
    unfolding get_loss_Inr_iff by auto
next
  case False
  with assms show ?thesis by (auto simp: forward_eval ebind_Inr)
qed

theorem forward_never_uses_iou_branch_witness:
  "0 < (1::int) \<and>
   iou_branch (CenterNetHead_init toy_paddle 64 80 256 1 True 1 ''L1'' 1 1) \<noteq> None \<and>
   forward toy_paddle (CenterNetHead_init toy_paddle 64 80 256 1 True 1 ''L1'' 1 1) 10 toy_inputs =
     Inr [(''heatmap_loss'', 87), (''size_loss'', 3), (''offset_loss'', 5), (''det_loss'', 95)] \<and>
   forward toy_paddle ((CenterNetHead_init toy_paddle 64 80 256 1 True 1 ''L1'' 1 1)
       \<lparr>training := False\<rparr>) 10 toy_inputs =
     Inr [(''heatmap'', 90), (''size'', 14), (''offset'', 12)] \<and>
   map_of [(''heatmap_loss'', 87), (''size_loss'', 3), (''offset_loss'', 5), (''det_loss'', 95 :: int)]
     ''iou_loss'' = None \<and>
   map_of [(''heatmap'', 90), (''size'', 14), (''offset'', 12 :: int)] ''iou'' = None"
proof -
  let ?h = "CenterNetHead_init toy_paddle 64 80 256 1 True 1 ''L1'' 1 (1::int)"
  have b: "iou_branch ?h \<noteq> None"
    by (simp add: CenterNetHead_init_def)
  have t: "forward toy_paddle ?h 10 toy_inputs =
     Inr [(''heatmap_loss'', 87), (''size_loss'', 3), (''offset_loss'', 5), (''det_loss'', 95)]"
    by (simp add: forward_def hasattr_def get_loss_def heatmap_head_loss_def gather_positions_def
        size_head_loss_def l1_size_target_def offset_head_loss_def assemble_losses_def
        unpack4_def shape_at_def getitem_def toy_paddle_def toy_inputs_def CenterNetHead_init_def)
  have e: "forward toy_paddle (?h\<lparr>training := False\<rparr>) 10 toy_inputs =
     Inr [(''heatmap'', 90), (''size'', 14), (''offset'', 12)]"
    by (simp add: forward_def hasattr_def toy_paddle_def toy_inputs_def CenterNetHead_init_def)
  from forward_never_uses_iou_branch [OF t] forward_never_uses_iou_branch [OF e] b t e
  show ?thesis by simp
qed

section \<open>Properties of the configuration loader\<close>

lemma py_dict_simps:
  "py_copy (YDict d) = Inr (YDict d)"
  "py_copy (YList l) = Inr (YList l)"
  "py_contains (YDict d) k = Inr (k \<in> keys d)"
  "py_getitem (YDict d) k = (case map_of d k of None \<Rightarrow> Inl KeyError | Some x \<Rightarrow> Inr x)"
  "py_setitem (YDict d) k x = Inr (YDict (AList.update k x d))"
  "py_get (YDict d) k dflt = Inr (case map_of d k of None \<Rightarrow> dflt | Some x \<Rightarrow> x)"
  "py_pop (YDict d) k = (case map_of d k of None \<Rightarrow> Inl KeyError
                     | Some x \<Rightarrow> Inr (x, YDict (AList.delete k d)))"
  by (simp_all add: py_copy_def py_contains_def py_getitem_def py_setitem_def py_get_def py_pop_def)

lemma keys_map_of: "k \<in> keys d \<longleftrightarrow> map_of d k \<noteq> None"
  by (simp add: keys_def map_of_eq_None_iff)



lemma find_component_chain:
  "find_component (com # coms) name =
     (case com name of Some c \<Rightarrow> Inr c | None \<Rightarrow> find_component coms name)"
  by (auto split: option.splits)

text \<open>
  Claim C5.  \<open>load_component\<close> returns the component of the first of \<open>MODELS\<close>,
  \<open>BACKBONES\<close>, \<open>DATASETS\<close>, \<open>TRANSFORMS\<close>, \<open>LOSSES\<close>, in this order, that has the
  name, and raises \<^verbatim>\<open>RuntimeError\<close> when none has it.
\<close>

theorem load_component_first_registry:
  "load_component mgr com_name =
     (case MODELS mgr com_name of Some c \<Rightarrow> Inr c | None \<Rightarrow>
      (case BACKBONES mgr com_name of Some c \<Rightarrow> Inr c | None \<Rightarrow>
       (case DATASETS mgr com_name of Some c \<Rightarrow> Inr c | None \<Rightarrow>
        (case TRANSFORMS mgr com_name of Some c \<Rightarrow> Inr c | None \<Rightarrow>
         (case LOSSES mgr com_name of Some c \<Rightarrow> Inr c | None \<Rightarrow> Inl RuntimeError)))))"
  unfolding load_component_def find_component_chain by (simp split: option.splits)

theorem load_component_first_registry_witness:
  "load_component toy_manager ''UNet'' = Inr ''models.UNet'' \<and>
   load_component toy_manager ''ResNet50'' = Inr ''backbones.ResNet50'' \<and>
   load_component toy_manager ''DiceLoss'' = Inr ''losses.DiceLoss'' \<and>
   load_component toy_manager ''Missing'' = Inl RuntimeError"
  using load_component_first_registry [of toy_manager "''UNet''"]
    load_component_first_registry [of toy_manager "''ResNet50''"]
    load_component_first_registry [of toy_manager "''DiceLoss''"]
    load_component_first_registry [of toy_manager "''Missing''"]
  by (simp add: toy_manager_def)


lemma toy_parse:
  "parse_from_yaml toy_env (Suc (Suc 0)) ''configs/child.yml'' = Inr (YDict merged_yml)"
  by (simp add: toy_env_def child_yml_def base_yml_def merged_yml_def py_dict_simps keys_def
      py_contains_def py_pop_def py_copy_def py_getitem_def py_setitem_def)



lemma Config_update_defaults: "Config_update env d YNone YNone YNone None = Inr d"
  by (simp add: Config_update_def)

text \<open>
  Claim C8, as the code has it.  The constructor raises \<^verbatim>\<open>ValueError\<close> for an empty
  path, \<^verbatim>\<open>FileNotFoundError\<close> for a path that does not exist, \<^verbatim>\<open>RuntimeError\<close> for a
  name that ends neither in \<^verbatim>\<open>yml\<close> nor in \<^verbatim>\<open>yaml\<close>.  Then the file is parsed and
  \<^verbatim>\<open>update\<close> applies the overrides; an exception of either is the constructor's
  (a \<open>learning_rate\<close> for a config with neither \<^verbatim>\<open>lr_scheduler\<close> nor \<^verbatim>\<open>learning_rate\<close>
  raises \<^verbatim>\<open>KeyError\<close>).  The remaining checks read the dict after the overrides,
  which is the parsed one when the arguments have their defaults: \<^verbatim>\<open>RuntimeError\<close>
  when it has no \<^verbatim>\<open>model\<close> (or \<^verbatim>\<open>None\<close> there), \<^verbatim>\<open>ValueError\<close> when \<^verbatim>\<open>train_dataset\<close> and
  \<^verbatim>\<open>val_dataset\<close> are each absent, an empty dict or an empty list, and
  \<^verbatim>\<open>AttributeError\<close> when \<^verbatim>\<open>train_dataset\<close> is a value without \<^verbatim>\<open>copy\<close>, such as \<^verbatim>\<open>None\<close>.
  A \<open>Config\<close> is returned only when all checks passed.
\<close>

theorem Config_init_checks:
  "(path = [] \<longrightarrow> Config_init env path lr bs it opts = Inl ValueError) \<and>
   (path \<noteq> [] \<and> \<not> path_exists env path \<longrightarrow>
      Config_init env path lr bs it opts = Inl FileNotFoundError) \<and>
   (path \<noteq> [] \<and> path_exists env path \<and> \<not> suffix ''yml'' path \<and> \<not> suffix ''yaml'' path \<longrightarrow>
      Config_init env path lr bs it opts = Inl RuntimeError) \<and>
   (\<forall>d items.
      path \<noteq> [] \<and> path_exists env path \<and> (suffix ''yml'' path \<or> suffix ''yaml'' path) \<and>
      parse_from_yaml env (recursion_limit env) path = Inr d \<and>
      Config_update env d lr bs it opts = Inr (YDict items) \<and>
      (map_of items ''model'' = None \<or> map_of items ''model'' = Some YNone) \<longrightarrow>
      Config_init env path lr bs it opts = Inl RuntimeError) \<and>
   (\<forall>d items m.
      path \<noteq> [] \<and> path_exists env path \<and> (suffix ''yml'' path \<or> suffix ''yaml'' path) \<and>
      parse_from_yaml env (recursion_limit env) path = Inr d \<and>
      Config_update env d lr bs it opts = Inr (YDict items) \<and>
      map_of items ''model'' = Some m \<and> m \<noteq> YNone \<and>
      map_of items ''train_dataset'' \<in> {None, Some (YDict []), Some (YList [])} \<and>
      map_of items ''val_dataset'' \<in> {None, Some (YDict []), Some (YList [])} \<longrightarrow>
      Config_init env path lr bs it opts = Inl ValueError) \<and>
   (\<forall>d. Config_update env d YNone YNone YNone None = Inr d) \<and>
   (\<forall>self. Config_init env path lr bs it opts = Inr self \<longrightarrow>
      path \<noteq> [] \<and> path_exists env path \<and> (suffix ''yml'' path \<or> suffix ''yaml'' path) \<and>
      (\<exists>d. parse_from_yaml env (recursion_limit env) path = Inr d \<and>
           Config_update env d lr bs it opts = Inr (dic self)) \<and>
      (\<exists>m. py_get (dic self) ''model'' YNone = Inr m \<and> m \<noteq> YNone) \<and>
      (\<exists>tc. train_dataset_config self = Inr tc \<and>
            (truthy tc \<or> (\<exists>vc. val_dataset_config self = Inr vc \<and> truthy vc)))) \<and>
   (\<forall>e.
      path \<noteq> [] \<and> path_exists env path \<and> (suffix ''yml'' path \<or> suffix ''yaml'' path) \<and>
      parse_from_yaml env (recursion_limit env) path = Inl e \<longrightarrow>
      Config_init env path lr bs it opts = Inl e) \<and>
   (\<forall>d e.
      path \<noteq> [] \<and> path_exists env path \<and> (suffix ''yml'' path \<or> suffix ''yaml'' path) \<and>
      parse_from_yaml env (recursion_limit env) path = Inr d \<and>
      Config_update env d lr bs it opts = Inl e \<longrightarrow>
      Config_init env path lr bs it opts = Inl e) \<and>
   (\<forall>items.
      path \<noteq> [] \<and> path_exists env path \<and> (suffix ''yml'' path \<or> suffix ''yaml'' path) \<and>
      parse_from_yaml env (recursion_limit env) path = Inr (YDict items) \<and>
      truthy lr \<and> ''lr_scheduler'' \<notin> keys items \<and> ''learning_rate'' \<notin> keys items \<longrightarrow>
      Config_init env path lr bs it opts = Inl KeyError) \<and>
   (\<forall>d items m v.
      path \<noteq> [] \<and> path_exists env path \<and> (suffix ''yml'' path \<or> suffix ''yaml'' path) \<and>
      parse_from_yaml env (recursion_limit env) path = Inr d \<and>
      Config_update env d lr bs it opts = Inr (YDict items) \<and>
      map_of items ''model'' = Some m \<and> m \<noteq> YNone \<and>
      map_of items ''train_dataset'' = Some v \<and> py_copy v = Inl AttributeError \<longrightarrow>
      Config_init env path lr bs it opts = Inl AttributeError)"
proof -
  have c1: "path = [] \<longrightarrow> Config_init env path lr bs it opts = Inl ValueError"
    by (simp add: Config_init_def)
  have c2: "path \<noteq> [] \<and> \<not> path_exists env path \<longrightarrow>
      Config_init env path lr bs it opts = Inl FileNotFoundError"
    by (simp add: Config_init_def)
  have c3: "path \<noteq> [] \<and> path_exists env path \<and> \<not> suffix ''yml'' path \<and> \<not> suffix ''yaml'' path \<longrightarrow>
      Config_init env path lr bs it opts = Inl RuntimeError"
    by (simp add: Config_init_def)
  have c4: "\<forall>d items.
      path \<noteq> [] \<and> path_exists env path \<and> (suffix ''yml'' path \<or> suffix ''yaml'' path) \<and>
      parse_from_yaml env (recursion_limit env) path = Inr d \<and>
      Config_update env d lr bs it opts = Inr (YDict items) \<and>
      (map_of items ''model'' = None \<or> map_of items ''model'' = Some YNone) \<longrightarrow>
      Config_init env path lr bs it opts = Inl RuntimeError"
    by (auto simp: Config_init_def py_dict_simps)
  have c5: "\<forall>d items m.
      path \<noteq> [] \<and> path_exists env path \<and> (suffix ''yml'' path \<or> suffix ''yaml'' path) \<and>
      parse_from_yaml env (recursion_limit env) path = Inr d \<and>
      Config_update env d lr bs it opts = Inr (YDict items) \<and>
      map_of items ''model'' = Some m \<and> m \<noteq> YNone \<and>
      map_of items ''train_dataset'' \<in> {None, Some (YDict []), Some (YList [])} \<and>
      map_of items ''val_dataset'' \<in> {None, Some (YDict []), Some (YList [])} \<longrightarrow>
      Config_init env path lr bs it opts = Inl ValueError"
    by (auto simp: Config_init_def py_dict_simps train_dataset_config_def val_dataset_config_def)
  have c6: "\<forall>d. Config_update env d YNone YNone YNone None = Inr d"
    by (simp add: Config_update_defaults)
  have c7: "\<forall>self. Config_init env path lr bs it opts = Inr self \<longrightarrow>
      path \<noteq> [] \<and> path_exists env path \<and> (suffix ''yml'' path \<or> suffix ''yaml'' path) \<and>
      (\<exists>d. parse_from_yaml env (recursion_limit env) path = Inr d \<and>
           Config_update env d lr bs it opts = Inr (dic self)) \<and>
      (\<exists>m. py_get (dic self) ''model'' YNone = Inr m \<and> m \<noteq> YNone) \<and>
      (\<exists>tc. train_dataset_config self = Inr tc \<and>
            (truthy tc \<or> (\<exists>vc. val_dataset_config self = Inr vc \<and> truthy vc)))"
    by (auto simp: Config_init_def Let_def ebind_Inr split: if_splits)
  have c8: "\<forall>e.
      path \<noteq> [] \<and> path_exists env path \<and> (suffix ''yml'' path \<or> suffix ''yaml'' path) \<and>
      parse_from_yaml env (recursion_limit env) path = Inl e \<longrightarrow>
      Config_init env path lr bs it opts = Inl e"
    by (auto simp: Config_init_def)
  have c9: "\<forall>d e.
      path \<noteq> [] \<and> path_exists env path \<and> (suffix ''yml'' path \<or> suffix ''yaml'' path) \<and>
      parse_from_yaml env (recursion_limit env) path = Inr d \<and>
      Config_update env d lr bs it opts = Inl e \<longrightarrow>
      Config_init env path lr bs it opts = Inl e"
    by (auto simp: Config_init_def)
  have c10: "\<forall>items.
      path \<noteq> [] \<and> path_exists env path \<and> (suffix ''yml'' path \<or> suffix ''yaml'' path) \<and>
      parse_from_yaml env (recursion_limit env) path = Inr (YDict items) \<and>
      truthy lr \<and> ''lr_scheduler'' \<notin> keys items \<and> ''learning_rate'' \<notin> keys items \<longrightarrow>
      Config_init env path lr bs it opts = Inl KeyError"
    by (auto simp: Config_init_def Config_update_def py_dict_simps keys_map_of)
  have c11: "\<forall>d items m v.
      path \<noteq> [] \<and> path_exists env path \<and> (suffix ''yml'' path \<or> suffix ''yaml'' path) \<and>
      parse_from_yaml env (recursion_limit env) path = Inr d \<and>
      Config_update env d lr bs it opts = Inr (YDict items) \<and>
      map_of items ''model'' = Some m \<and> m \<noteq> YNone \<and>
      map_of items ''train_dataset'' = Some v \<and> py_copy v = Inl AttributeError \<longrightarrow>
      Config_init env path lr bs it opts = Inl AttributeError"
    by (auto simp: Config_init_def py_dict_simps train_dataset_config_def)
  show ?thesis
    by (intro conjI c1 c2 c3 c4 c5 c6 c7 c8 c9 c10 c11)
qed

lemma toy_init_ok:
  "Config_init toy_env ''configs/child.yml'' YNone (YInt 8) YNone None =
     Inr \<lparr>dic = YDict (AList.update ''batch_size'' (YInt 8) merged_yml), model_attr = None,
          losses_attr = None, distill_losses_attr = None\<rparr>"
  by (simp add: Config_init_def Config_update_def train_dataset_config_def suffix_def
      numeral_3_eq_3 toy_env_def child_yml_def base_yml_def merged_yml_def py_dict_simps keys_def
      py_contains_def py_pop_def py_copy_def py_getitem_def py_setitem_def py_get_def)

theorem Config_init_checks_witness:
  "Config_init toy_env [] YNone YNone YNone None = Inl ValueError \<and>
   Config_init toy_env ''configs/missing.yml'' YNone YNone YNone None = Inl FileNotFoundError \<and>
   Config_init toy_env ''configs/notes.txt'' YNone YNone YNone None = Inl RuntimeError \<and>
   Config_init toy_env ''configs/nomodel.yml'' YNone YNone YNone None = Inl RuntimeError \<and>
   Config_init toy_env ''configs/nodata.yml'' YNone YNone YNone None = Inl ValueError \<and>
   Config_init toy_env ''configs/nomodel.yml'' (YInt 1) YNone YNone None = Inl KeyError \<and>
   path_exists toy_env ''configs/child.yml'' \<and> suffix ''yml'' ''configs/child.yml'' \<and>
   parse_from_yaml toy_env (recursion_limit toy_env) ''configs/child.yml'' = Inr (YDict merged_yml) \<and>
   Config_update toy_env (YDict merged_yml) YNone (YInt 8) YNone None =
     Inr (YDict (AList.update ''batch_size'' (YInt 8) merged_yml)) \<and>
   py_get (YDict (AList.update ''batch_size'' (YInt 8) merged_yml)) ''model'' YNone =
     Inr (YDict [(''type'', YStr ''UNet''), (''pretrained'', YNone), (''num_classes'', YInt 2)])"
  using Config_init_checks [of "[]" toy_env YNone YNone YNone None]
    Config_init_checks [of "''configs/missing.yml''" toy_env YNone YNone YNone None]
    Config_init_checks [of "''configs/notes.txt''" toy_env YNone YNone YNone None]
    Config_init_checks [of "''configs/child.yml''" toy_env YNone "YInt 8" YNone None,
      THEN conjunct2, THEN conjunct2, THEN conjunct2, THEN conjunct2, THEN conjunct2, THEN conjunct2,
      THEN conjunct1, rule_format, OF toy_init_ok]
  by (simp add: Config_init_def Config_update_def train_dataset_config_def val_dataset_config_def
      suffix_def toy_env_def child_yml_def base_yml_def merged_yml_def py_dict_simps keys_def
      py_contains_def py_pop_def py_copy_def py_getitem_def py_setitem_def py_get_def)

text \<open>
  The claim as stated raises \<^verbatim>\<open>RuntimeError\<close> whenever the parsed config has no
  \<^verbatim>\<open>model\<close> key.  The check reads the dict after the overrides: with \<^verbatim>\<open>opts\<close> that
  add a model and a dataset, a file without \<^verbatim>\<open>model\<close> gives a \<open>Config\<close>.
\<close>

theorem config_built_from_file_without_model:
  "parse_from_yaml toy_env (recursion_limit toy_env) ''configs/nomodel.yml'' =
     Inr (YDict [(''batch_size'', YInt 2)]) \<and>
   map_of [(''batch_size'', YInt 2)] ''model'' = None \<and>
   Config_init toy_env ''configs/nomodel.yml'' YNone YNone YNone
     (Some [YStr ''model.type'', YStr ''FCN'', YStr ''train_dataset.type'', YStr ''Cityscapes'']) =
     Inr \<lparr>dic = YDict [(''batch_size'', YInt 2),
                        (''model'', YDict [(''type'', YStr ''FCN'')]),
                        (''train_dataset'', YDict [(''type'', YStr ''Cityscapes'')])],
          model_attr = None, losses_attr = None, distill_losses_attr = None\<rparr>"
  by (simp add: Config_init_def Config_update_def override_value_def train_dataset_config_def
      suffix_def toy_env_def py_dict_simps keys_def py_contains_def py_copy_def py_getitem_def
      py_setitem_def py_get_def py_setdefault_def)

lemma restore_delete: "restore d (AList.delete ''type'' d) = d"
  by (induction d) (auto simp: AList.delete_eq)

lemma load_grows:
  "load_object mgr h cfg = Inr (ob, h1, c1) \<Longrightarrow> prefix h h1 \<and> ob < length h1 \<and> c1 = cfg"
  "load_params mgr h items ps = Inr (ps', h2, items1) \<Longrightarrow> prefix h h2 \<and> items1 = items"
  "load_list mgr h l = Inr (its, h3, l1) \<Longrightarrow> prefix h h3 \<and> l1 = l"
proof (induction mgr h cfg and mgr h items ps and mgr h l
    arbitrary: ob h1 c1 and ps' h2 items1 and its h3 l1
    rule: load_object_load_params_load_list.induct)
  case (1 mgr h cfg)
  from "1.prems" obtain d t component params h0 items1 where
    c: "cfg = YDict d" "map_of d ''type'' = Some t" "load_component_of mgr t = Inr component"
    and p: "load_params mgr h (AList.delete ''type'' d) [] = Inr (params, h0, items1)"
    and r: "ob = length h0" "h1 = h0 @ [(component, params)]" "c1 = YDict (restore d items1)"
    by (auto simp: load_object.simps [of mgr h cfg]
        split: yaml.splits option.splits sum.splits if_splits prod.splits)
  from "1.IH" [OF c p] have "prefix h h0" "items1 = AList.delete ''type'' d"
    by simp_all
  with c r show ?case
    by (auto simp: restore_delete prefix_def)
next
  case (2 mgr h params)
  then show ?case by simp
next
  case (3 mgr h key val rest params)
  show ?case
  proof (cases "is_meta_type val")
    case True
    with "3.prems" obtain ob ha val1 rest1 where
      a: "load_object mgr h val = Inr (ob, ha, val1)"
      and b: "load_params mgr ha rest (AList.update key (Obj ob) params) = Inr (ps', h2, rest1)"
      and c: "items1 = (key, val1) # rest1"
      by (auto split: sum.splits)
    from "3.IH"(1) [OF True a] have "prefix h ha" "val1 = val" by simp_all
    moreover from "3.IH"(2) [OF True a refl refl b] have "prefix ha h2" "rest1 = rest"
      by simp_all
    ultimately show ?thesis using c by (auto intro: prefix_order.trans)
  next
    case False
    show ?thesis
    proof (cases val)
      case (YList l)
      with False "3.prems" obtain its ha l1 rest1 where
        a: "load_list mgr h l = Inr (its, ha, l1)"
        and b: "load_params mgr ha rest (AList.update key (Items its) params) = Inr (ps', h2, rest1)"
        and c: "items1 = (key, YList l1) # rest1"
        by (auto split: sum.splits)
      from "3.IH"(8) [OF False YList a] have "prefix h ha" "l1 = l" by simp_all
      moreover from "3.IH"(9) [OF False YList a refl refl b] have "prefix ha h2" "rest1 = rest"
        by simp_all
      ultimately show ?thesis using c YList by (auto intro: prefix_order.trans)
    qed (use False "3.prems" "3.IH" in \<open>auto split: sum.splits\<close>)
  qed
next
  case (4 mgr h)
  then show ?case by simp
next
  case (5 mgr h item items)
  show ?case
  proof (cases "is_meta_type item")
    case True
    with "5.prems" obtain ob ha item1 its1 items1 where
      a: "load_object mgr h item = Inr (ob, ha, item1)"
      and b: "load_list mgr ha items = Inr (its1, h3, items1)"
      and c: "l1 = item1 # items1"
      by (auto split: sum.splits)
    from "5.IH"(1) [OF True a] have "prefix h ha" "item1 = item" by simp_all
    moreover from "5.IH"(2) [OF True a refl refl b] have "prefix ha h3" "items1 = items"
      by simp_all
    ultimately show ?thesis using c by (auto intro: prefix_order.trans)
  next
    case False
    then show ?thesis using 5
      by (auto split: sum.splits)
  qed
qed

lemma item_built_mono:
  "prefix h ha \<Longrightarrow> prefix hb h1 \<Longrightarrow> item_built mgr ha hb item kw \<Longrightarrow> item_built mgr h h1 item kw"
  unfolding item_built_def by (auto split: if_splits, meson prefix_order.trans)

lemma value_passed_mono:
  "prefix h ha \<Longrightarrow> prefix hb h1 \<Longrightarrow> value_passed mgr ha hb val kw \<Longrightarrow> value_passed mgr h h1 val kw"
  unfolding value_passed_def
  by (auto intro: item_built_mono elim!: list_all2_mono split: yaml.splits if_splits)

lemma load_list_items:
  "load_list mgr h l = Inr (its, h1, l1) \<Longrightarrow> list_all2 (item_built mgr h h1) l its"
proof (induction l arbitrary: h its l1)
  case Nil
  then show ?case by simp
next
  case (Cons item items)
  show ?case
  proof (cases "is_meta_type item")
    case True
    with Cons.prems obtain ob ha item1 rest items1 where
      a: "load_object mgr h item = Inr (ob, ha, item1)"
      and b: "load_list mgr ha items = Inr (rest, h1, items1)"
      and c: "its = Obj ob # rest" "l1 = item1 # items1"
      by (auto split: sum.splits)
    from load_grows(1) [OF a] load_grows(3) [OF b]
    have p: "prefix h ha" "prefix ha h1" and e: "item1 = item" "items1 = items"
      by simp_all
    from a p e True have "item_built mgr h h1 item (Obj ob)"
      unfolding item_built_def by auto
    moreover from Cons.IH [OF b] p have "list_all2 (item_built mgr h h1) items rest"
      by (auto elim!: list_all2_mono intro: item_built_mono)
    ultimately show ?thesis using c by simp
  next
    case False
    with Cons.prems obtain rest items1 where
      b: "load_list mgr h items = Inr (rest, h1, items1)" and c: "its = Plain item # rest"
      by (auto split: sum.splits)
    from False have "item_built mgr h h1 item (Plain item)"
      unfolding item_built_def by simp
    with Cons.IH [OF b] c show ?thesis by simp
  qed
qed

lemma load_params_entries:
  "load_params mgr h items ps = Inr (ps', h1, items1) \<Longrightarrow> distinct (map fst items) \<Longrightarrow>
     (case map_of items k of
        None \<Rightarrow> map_of ps' k = map_of ps k
      | Some v \<Rightarrow> (\<exists>kw. map_of ps' k = Some kw \<and> value_passed mgr h h1 v kw))"
proof (induction items arbitrary: h ps items1)
  case Nil
  then show ?case by simp
next
  case (Cons kv rest)
  obtain key val where kv: "kv = (key, val)" by (cases kv)
  from Cons.prems(2) kv have dist: "distinct (map fst rest)" and notin: "map_of rest key = None"
    by (auto simp: map_of_eq_None_iff)
  have "\<exists>X ha rest1. load_params mgr ha rest (AList.update key X ps) = Inr (ps', h1, rest1) \<and>
          prefix h ha \<and> value_passed mgr h ha val X"
  proof (cases "is_meta_type val")
    case True
    with Cons.prems(1) kv obtain ob ha val1 rest1 where
      a: "load_object mgr h val = Inr (ob, ha, val1)"
      and b: "load_params mgr ha rest (AList.update key (Obj ob) ps) = Inr (ps', h1, rest1)"
      by (auto split: sum.splits)
    from load_grows(1) [OF a] have "prefix h ha" "val1 = val" by simp_all
    moreover from this a True have "value_passed mgr h ha val (Obj ob)"
      unfolding value_passed_def item_built_def by auto
    ultimately show ?thesis using b by blast
  next
    case False
    show ?thesis
    proof (cases val)
      case (YList l)
      with False Cons.prems(1) kv obtain its ha l1 rest1 where
        a: "load_list mgr h l = Inr (its, ha, l1)"
        and b: "load_params mgr ha rest (AList.update key (Items its) ps) = Inr (ps', h1, rest1)"
        by (auto split: sum.splits)
      from load_grows(3) [OF a] have "prefix h ha" by simp
      moreover from load_list_items [OF a] False YList have "value_passed mgr h ha val (Items its)"
        unfolding value_passed_def by simp
      ultimately show ?thesis using b by blast
    qed (use False Cons.prems(1) kv in \<open>auto simp: value_passed_def split: sum.splits\<close>)
  qed
  then obtain X ha rest1 where
    b: "load_params mgr ha rest (AList.update key X ps) = Inr (ps', h1, rest1)"
    and p: "prefix h ha" and v: "value_passed mgr h ha val X"
    by blast
  from load_grows(2) [OF b] have p1: "prefix ha h1" by simp
  note IH = Cons.IH [OF b dist]
  show ?case
  proof (cases "k = key")
    case True
    with IH notin have "map_of ps' k = Some X"
      by (simp add: AList.update_conv')
    moreover from v p1 have "value_passed mgr h h1 val X"
      by (rule value_passed_mono [OF prefix_order.refl, rotated -1])
    ultimately show ?thesis using True kv by simp
  next
    case False
    show ?thesis
    proof (cases "map_of rest k")
      case None
      with IH False kv show ?thesis by (simp add: AList.update_conv')
    next
      case (Some w)
      with IH obtain kw where "map_of ps' k = Some kw" "value_passed mgr ha h1 w kw"
        by auto
      with p have "map_of ps' k = Some kw \<and> value_passed mgr h h1 w kw"
        by (auto intro: value_passed_mono)
      with Some False kv show ?thesis by auto
    qed
  qed
qed


lemma keys_delete: "keys (AList.delete k d) = keys d - {k}"
  by (auto simp: keys_def AList.delete_eq)



text \<open>
  Claim C6.  \<open>load_object\<close> raises \<^verbatim>\<open>RuntimeError\<close> on a dict without \<^verbatim>\<open>type\<close>.
  Otherwise it resolves the component named by \<^verbatim>\<open>type\<close> in the registry, fills the
  keyword arguments from the other entries and appends the call to the heap.
  When it returns, the keyword arguments have the keys of the dict but \<^verbatim>\<open>type\<close>,
  and each is \<open>value_passed\<close> from its entry: a dict with a \<^verbatim>\<open>type\<close> key is an
  instance built by a recursive call, a list is passed with such items built and
  the others as they are, every other value is passed as it is.  And the dict the
  caller passed is, when the call returns, the dict it was: the \<^verbatim>\<open>type\<close> entry was
  popped from the copy, and no recursive call changed a value.
\<close>

theorem load_object_builds:
  "(''type'' \<notin> keys d \<longrightarrow> load_object mgr h (YDict d) = Inl RuntimeError) \<and>
   (\<forall>t. map_of d ''type'' = Some t \<longrightarrow>
      load_object mgr h (YDict d) =
        (case load_component_of mgr t of
           Inl e \<Rightarrow> Inl e
         | Inr component \<Rightarrow>
             (case load_params mgr h (AList.delete ''type'' d) [] of
                Inl e \<Rightarrow> Inl e
              | Inr (params, h1, items1) \<Rightarrow>
                  Inr (length h1, h1 @ [(component, params)], YDict (restore d items1))))) \<and>
   (\<forall>com_name. load_component_of mgr (YStr com_name) = load_component mgr com_name) \<and>
   (\<forall>ob h2 after. distinct (map fst d) \<and> load_object mgr h (YDict d) = Inr (ob, h2, after) \<longrightarrow>
      (\<exists>t component params h1.
         map_of d ''type'' = Some t \<and> load_component_of mgr t = Inr component \<and>
         prefix h h1 \<and> h2 = h1 @ [(component, params)] \<and> ob = length h1 \<and>
         keys params = keys d - {''type''} \<and>
         (\<forall>k v. k \<noteq> ''type'' \<and> map_of d k = Some v \<longrightarrow>
            (\<exists>kw. map_of params k = Some kw \<and> value_passed mgr h h1 v kw)))) \<and>
   (\<forall>ob h2 after. load_object mgr h (YDict d) = Inr (ob, h2, after) \<longrightarrow> after = YDict d)"
proof -
  have c1: "''type'' \<notin> keys d \<longrightarrow> load_object mgr h (YDict d) = Inl RuntimeError"
    by (simp add: load_object.simps keys_map_of)
  have c2: "\<forall>t. map_of d ''type'' = Some t \<longrightarrow>
      load_object mgr h (YDict d) =
        (case load_component_of mgr t of
           Inl e \<Rightarrow> Inl e
         | Inr component \<Rightarrow>
             (case load_params mgr h (AList.delete ''type'' d) [] of
                Inl e \<Rightarrow> Inl e
              | Inr (params, h1, items1) \<Rightarrow>
                  Inr (length h1, h1 @ [(component, params)], YDict (restore d items1))))"
    by (simp add: load_object.simps)
  have c3: "\<forall>com_name. load_component_of mgr (YStr com_name) = load_component mgr com_name"
    by (simp add: load_component_of_def)
  have c4: "\<forall>ob h2 after. distinct (map fst d) \<and> load_object mgr h (YDict d) = Inr (ob, h2, after) \<longrightarrow>
      (\<exists>t component params h1.
         map_of d ''type'' = Some t \<and> load_component_of mgr t = Inr component \<and>
         prefix h h1 \<and> h2 = h1 @ [(component, params)] \<and> ob = length h1 \<and>
         keys params = keys d - {''type''} \<and>
         (\<forall>k v. k \<noteq> ''type'' \<and> map_of d k = Some v \<longrightarrow>
            (\<exists>kw. map_of params k = Some kw \<and> value_passed mgr h h1 v kw)))"
  proof (intro allI impI)
    fix ob h2 after
    assume a: "distinct (map fst d) \<and> load_object mgr h (YDict d) = Inr (ob, h2, after)"
    then obtain t component params h1 items1 where
      t: "map_of d ''type'' = Some t" and c: "load_component_of mgr t = Inr component"
      and p: "load_params mgr h (AList.delete ''type'' d) [] = Inr (params, h1, items1)"
      and r: "h2 = h1 @ [(component, params)]" "ob = length h1"
      by (auto simp: load_object.simps split: option.splits sum.splits)
    from a have dist: "distinct (map fst (AList.delete ''type'' d))"
      by (simp add: AList.distinct_delete)
    note e = load_params_entries [OF p dist]
    have k: "keys params = keys d - {''type''}"
    proof -
      have "k \<in> keys params \<longleftrightarrow> k \<in> keys (AList.delete ''type'' d)" for k
        using e [of k] by (auto simp: keys_map_of split: option.splits)
      then show ?thesis by (auto simp: keys_delete)
    qed
    have v: "\<exists>kw. map_of params k = Some kw \<and> value_passed mgr h h1 v kw"
      if "k \<noteq> ''type'' \<and> map_of d k = Some v" for k v
      using e [of k] that by (simp add: AList.delete_conv')
    from load_grows(2) [OF p] have "prefix h h1" by simp
    with t c r k v
    show "\<exists>t component params h1.
         map_of d ''type'' = Some t \<and> load_component_of mgr t = Inr component \<and>
         prefix h h1 \<and> h2 = h1 @ [(component, params)] \<and> ob = length h1 \<and>
         keys params = keys d - {''type''} \<and>
         (\<forall>k v. k \<noteq> ''type'' \<and> map_of d k = Some v \<longrightarrow>
            (\<exists>kw. map_of params k = Some kw \<and> value_passed mgr h h1 v kw))"
      by blast
  qed
  have c5: "\<forall>ob h2 after. load_object mgr h (YDict d) = Inr (ob, h2, after) \<longrightarrow> after = YDict d"
    using load_grows(1) by blast
  show ?thesis by (intro conjI c1 c2 c3 c4 c5)
qed

lemma toy_load_model:
  "load_object toy_manager [] (YDict toy_model_cfg) =
     Inr (2, toy_model_heap @ [(''models.UNet'', toy_model_params)], YDict toy_model_cfg)"
  by (simp add: load_object.simps is_meta_type_def load_component_of_def load_component_def
      toy_manager_def toy_model_cfg_def toy_model_heap_def toy_model_params_def keys_def)

theorem load_object_builds_witness:
  "load_object toy_manager [] (YDict [(''num_classes'', YInt 2)]) = Inl RuntimeError \<and>
   load_object toy_manager [] (YDict toy_model_cfg) =
     Inr (2, toy_model_heap @ [(''models.UNet'', toy_model_params)], YDict toy_model_cfg) \<and>
   (\<exists>t component params h1.
      map_of toy_model_cfg ''type'' = Some t \<and>
      load_component_of toy_manager t = Inr component \<and>
      prefix [] h1 \<and>
      toy_model_heap @ [(''models.UNet'', toy_model_params)] = h1 @ [(component, params)] \<and>
      2 = length h1 \<and>
      keys params = keys toy_model_cfg - {''type''} \<and>
      (\<forall>k v. k \<noteq> ''type'' \<and> map_of toy_model_cfg k = Some v \<longrightarrow>
         (\<exists>kw. map_of params k = Some kw \<and> value_passed toy_manager [] h1 v kw)))"
proof -
  have a: "load_object toy_manager [] (YDict [(''num_classes'', YInt 2)]) = Inl RuntimeError"
    using load_object_builds [of "[(''num_classes'', YInt 2)]" toy_manager "[]",
        THEN conjunct1]
    by (simp add: keys_def)
  have d: "distinct (map fst toy_model_cfg)"
    by (simp add: toy_model_cfg_def)
  from load_object_builds [of toy_model_cfg toy_manager "[]", THEN conjunct2, THEN conjunct2,
      THEN conjunct2, THEN conjunct1, rule_format, OF conjI [OF d toy_load_model]] a toy_load_model
  show ?thesis by blast
qed


subsection \<open>Preparing the losses\<close>




























subsection \<open>The cached properties\<close>















end
